theory Spec2Isabelle
  imports Main "HOL-Library.Word" "HOL-Library.Char_ord" "HOL-Library.List_Lexorder"
begin

section \<open>The shared response envelope (pkg/shared/response.go)\<close>

text \<open>
  \<^verbatim>\<open>type Response struct\<close>: five string fields. \<open>Message\<close> carries the tag
  \<^verbatim>\<open>omitempty\<close>, so the empty string stands for a message left out of the JSON text.
\<close>

record Response =
  Service :: string
  Status :: string
  Port :: string
  Timestamp :: string
  Message :: string

text \<open>
  A JSON document as the scanner of \<^verbatim>\<open>encoding/json\<close> reads it. Numbers and strings keep
  the bytes of their literal (a string those between its quotes, escapes not decoded); an
  object keeps its members in the order of the text.
\<close>

datatype json =
  JNull
  | JBool bool
  | JNumber string
  | JString string
  | JArray "json list"
  | JObject "(string \<times> json) list"

text \<open>
  A Go value of type \<^verbatim>\<open>any\<close> as \<^verbatim>\<open>encoding/json\<close> stores it: nil, a bool, a float64, a
  string, a \<^verbatim>\<open>[]any\<close> or a \<^verbatim>\<open>map[string]any\<close>. A float64 is given exactly, by its sign, its
  mantissa \<open>m\<close> and its exponent \<open>e\<close>: it is \<open>m * 2^e\<close>, negated when the sign is set. A
  map has one entry for each key and is listed by ascending key, the order in which the
  encoder writes it.
\<close>

datatype go_any =
  Go_nil
  | Go_bool bool
  | Go_float64 bool int int
  | Go_string string
  | Go_slice "go_any list"
  | Go_map "(string \<times> go_any) list"

text \<open>
  The body of a response, as the value that is handed to the encoder or written as it
  is: the envelope, the map of GET /protected (service, status, port, principal), the map
  of GET /env, or the plain text the multiplexer answers by itself. What the encoder
  makes of the strings in it is \<open>encoded\<close>, further down.
\<close>

datatype body =
  Envelope Response
  | Principal_doc string string string go_any
  | Env_doc "(string \<times> string) list"
  | Plain string

record http_response =
  code :: nat
  content_type :: string
  payload :: body

text \<open>
  \<^verbatim>\<open>func JSON(w, status, resp)\<close>: stamps the time, sets the content type, writes the status
  and hands the envelope to the encoder. The reading of the clock, already formatted as
  RFC 3339, is the first argument.
\<close>

definition JSON :: "string \<Rightarrow> nat \<Rightarrow> Response \<Rightarrow> http_response" where
  "JSON clock status resp =
     \<lparr>code = status, content_type = ''application/json'',
      payload = Envelope (resp\<lparr>Timestamp := clock\<rparr>)\<rparr>"

abbreviation StatusOK :: nat where "StatusOK \<equiv> 200"
abbreviation StatusUnauthorized :: nat where "StatusUnauthorized \<equiv> 401"
abbreviation StatusServiceUnavailable :: nat where "StatusServiceUnavailable \<equiv> 503"

section \<open>The state of a service and the effects of a handler\<close>

text \<open>
  The three atomics of \<^verbatim>\<open>main\<close>: \<^verbatim>\<open>ready\<close> and \<^verbatim>\<open>forceFail\<close> (atomic.Bool) and, in the api,
  \<^verbatim>\<open>inflight\<close> (atomic.Int64, a 64-bit word whose addition wraps). The worker has no
  counter; its field stays untouched there.
\<close>

record srv =
  ready :: bool
  forceFail :: bool
  inflight :: "64 word"

text \<open>
  Every store to an atomic, every sleep and every exit of the process is recorded, in
  program order, next to the state it produces. Log lines are not modelled.
\<close>

datatype effect =
  Store_ready bool
  | Store_forceFail bool
  | Add_inflight "64 word"
  | Sleep nat
  | Exit int

type_synonym run = "srv \<times> effect list"

definition ready_Store :: "bool \<Rightarrow> run \<Rightarrow> run" where
  "ready_Store b c = ((fst c)\<lparr>ready := b\<rparr>, snd c @ [Store_ready b])"

definition forceFail_Store :: "bool \<Rightarrow> run \<Rightarrow> run" where
  "forceFail_Store b c = ((fst c)\<lparr>forceFail := b\<rparr>, snd c @ [Store_forceFail b])"

definition inflight_Add :: "64 word \<Rightarrow> run \<Rightarrow> run" where
  "inflight_Add d c = ((fst c)\<lparr>inflight := inflight (fst c) + d\<rparr>, snd c @ [Add_inflight d])"

definition time_Sleep :: "nat \<Rightarrow> run \<Rightarrow> run" where
  "time_Sleep ms c = (fst c, snd c @ [Sleep ms])"

section \<open>What a handler reads from outside\<close>

datatype get_result = Get_error string | Get_ok nat

text \<open>
  \<open>now\<close> is the formatted clock, \<open>rand\<close> the source of \<^verbatim>\<open>rand.Intn\<close>, \<open>environ\<close> the
  process environment as \<^verbatim>\<open>os.Environ\<close> lists it (\<^verbatim>\<open>key=value\<close> entries), and \<open>client_Get\<close>
  the outcome of \<^verbatim>\<open>client.Get\<close> on a URL: an error text, or the status code of a response.
\<close>

record world =
  now :: string
  rand :: nat
  environ :: "string list"
  client_Get :: "string \<Rightarrow> get_result"

text \<open>
  A request as a handler sees it. \<open>req_header\<close> is \<^verbatim>\<open>http.Header\<close>: canonical names, each
  with its list of values.
\<close>

record request =
  req_method :: string
  req_path :: string
  req_header :: "(string \<times> string list) list"
  req_body :: string

section \<open>The /healthz handlers\<close>

text \<open>svc/api/main.go, \<^verbatim>\<open>healthzHandler\<close>.\<close>

definition api_healthz :: "string \<Rightarrow> world \<Rightarrow> request \<Rightarrow> run \<Rightarrow> http_response \<times> run" where
  "api_healthz port w r c =
     (if \<not> ready (fst c) then
        (JSON (now w) StatusServiceUnavailable
           \<lparr>Service = ''api'', Status = ''not_ready'', Port = port, Timestamp = '''',
            Message = ''still starting up''\<rparr>, c)
      else if forceFail (fst c) then
        (JSON (now w) StatusServiceUnavailable
           \<lparr>Service = ''api'', Status = ''unhealthy'', Port = port, Timestamp = '''',
            Message = ''health manually toggled to fail''\<rparr>, c)
      else
        (JSON (now w) StatusOK
           \<lparr>Service = ''api'', Status = ''healthy'', Port = port, Timestamp = '''',
            Message = ''''\<rparr>, c))"

text \<open>pkg/shared/response.go, \<^verbatim>\<open>worker.Run\<close>, the handler of \<^verbatim>\<open>GET /healthz\<close>.\<close>

definition worker_healthz :: "string \<Rightarrow> world \<Rightarrow> request \<Rightarrow> run \<Rightarrow> http_response \<times> run" where
  "worker_healthz port w r c =
     (if \<not> ready (fst c) then
        (JSON (now w) StatusServiceUnavailable
           \<lparr>Service = ''worker'', Status = ''not_ready'', Port = port, Timestamp = '''',
            Message = ''still warming up''\<rparr>, c)
      else if forceFail (fst c) then
        (JSON (now w) StatusServiceUnavailable
           \<lparr>Service = ''worker'', Status = ''unhealthy'', Port = port, Timestamp = '''',
            Message = ''health manually toggled to fail''\<rparr>, c)
      else
        (JSON (now w) StatusOK
           \<lparr>Service = ''worker'', Status = ''healthy'', Port = port, Timestamp = '''',
            Message = ''''\<rparr>, c))"

text \<open>The status and the message of a response, when its document has them.\<close>

definition status_of :: "http_response \<Rightarrow> string option" where
  "status_of resp =
     (case payload resp of
        Envelope e \<Rightarrow> Some (Status e)
      | Principal_doc sv st p v \<Rightarrow> Some st
      | _ \<Rightarrow> None)"

definition message_of :: "http_response \<Rightarrow> string option" where
  "message_of resp = (case payload resp of Envelope e \<Rightarrow> Some (Message e) | _ \<Rightarrow> None)"

section \<open>Formatting and the environment\<close>

text \<open>\<^verbatim>\<open>%d\<close> of \<^verbatim>\<open>fmt.Sprintf\<close>: decimal digits, with a minus sign for a negative number.\<close>

fun show_nat :: "nat \<Rightarrow> string" where
  "show_nat n =
     (if n < 10 then [''0123456789'' ! n]
      else show_nat (n div 10) @ [''0123456789'' ! (n mod 10)])"

declare show_nat.simps [simp del]

definition show_int :: "int \<Rightarrow> string" where
  "show_int i = (if i < 0 then CHR ''-'' # show_nat (nat (- i)) else show_nat (nat i))"

text \<open>The em dash of the source's messages, as its three UTF-8 bytes.\<close>

definition em_dash :: string where
  "em_dash = [CHR 0xE2, CHR 0x80, CHR 0x94]"

text \<open>\<^verbatim>\<open>strings.Cut(e, "=")\<close>: the text before the first separator, the text after it, and
  whether the separator was found.\<close>

definition strings_Cut :: "string \<Rightarrow> char \<Rightarrow> string \<times> string \<times> bool" where
  "strings_Cut e sep =
     (takeWhile (\<lambda>ch. ch \<noteq> sep) e, drop 1 (dropWhile (\<lambda>ch. ch \<noteq> sep) e), sep \<in> set e)"

text \<open>\<^verbatim>\<open>os.Getenv\<close>: the value of the first entry \<^verbatim>\<open>key=value\<close> with that key, the empty
  string when there is none.\<close>

fun os_Getenv :: "string list \<Rightarrow> string \<Rightarrow> string" where
  "os_Getenv [] k = []"
| "os_Getenv (e # es) k =
     (case strings_Cut e CHR ''='' of
        (k', v, found) \<Rightarrow> if found \<and> k' = k then v else os_Getenv es k)"

text \<open>The first lines of both \<^verbatim>\<open>main\<close> functions and of \<^verbatim>\<open>worker.Run\<close>.\<close>

definition api_port :: "string list \<Rightarrow> string" where
  "api_port env = (let port = os_Getenv env ''PORT'' in if port = [] then ''3456'' else port)"

definition worker_port :: "string list \<Rightarrow> string" where
  "worker_port env = (let port = os_Getenv env ''PORT'' in if port = [] then ''9090'' else port)"

section \<open>The other handlers of the api (svc/api/main.go)\<close>

text \<open>\<^verbatim>\<open>GET /\<close>. The deferred decrement runs after the response is written; the message
  shows the counter as the handler reads it, after its own increment.\<close>

definition api_root :: "string \<Rightarrow> world \<Rightarrow> request \<Rightarrow> run \<Rightarrow> http_response \<times> run" where
  "api_root port w r c =
     (let c1 = inflight_Add 1 c;
          resp = JSON (now w) StatusOK
            \<lparr>Service = ''api'', Status = ''ok'', Port = port, Timestamp = '''',
             Message = ''request #'' @ show_nat (rand w mod 10000) @ '' | in-flight: ''
                         @ show_int (sint (inflight (fst c1)))\<rparr>
      in (resp, inflight_Add (- 1) c1))"

definition api_healthz_fail :: "string \<Rightarrow> world \<Rightarrow> request \<Rightarrow> run \<Rightarrow> http_response \<times> run" where
  "api_healthz_fail port w r c =
     (let c1 = forceFail_Store True c
      in (JSON (now w) StatusOK
            \<lparr>Service = ''api'', Status = ''ok'', Port = port, Timestamp = '''',
             Message = ''healthcheck will now fail '' @ em_dash
                         @ '' liveness probe should restart this container''\<rparr>, c1))"

definition api_healthz_recover :: "string \<Rightarrow> world \<Rightarrow> request \<Rightarrow> run \<Rightarrow> http_response \<times> run" where
  "api_healthz_recover port w r c =
     (let c1 = forceFail_Store False c
      in (JSON (now w) StatusOK
            \<lparr>Service = ''api'', Status = ''ok'', Port = port, Timestamp = '''',
             Message = ''healthcheck will now pass again''\<rparr>, c1))"

text \<open>\<^verbatim>\<open>GET /slow\<close>: five seconds of sleep between the increment and the response.\<close>

definition api_slow :: "string \<Rightarrow> world \<Rightarrow> request \<Rightarrow> run \<Rightarrow> http_response \<times> run" where
  "api_slow port w r c =
     (let c1 = inflight_Add 1 c;
          c2 = time_Sleep 5000 c1;
          resp = JSON (now w) StatusOK
            \<lparr>Service = ''api'', Status = ''ok'', Port = port, Timestamp = '''',
             Message = ''slow request completed after 5s''\<rparr>
      in (resp, inflight_Add (- 1) c2))"

text \<open>\<^verbatim>\<open>GET /env\<close>: the entries are sorted, cut at the first \<^verbatim>\<open>=\<close> and stored in a map, a
  later entry replacing an earlier one with the same key; the encoder writes the map's
  members by ascending key. The status is never written, so it is 200.\<close>

fun assign :: "string \<Rightarrow> string \<Rightarrow> (string \<times> string) list \<Rightarrow> (string \<times> string) list" where
  "assign k v [] = [(k, v)]"
| "assign k v ((k', v') # kvs) =
     (if k' = k then (k, v) # kvs else (k', v') # assign k v kvs)"

definition env_vars :: "string list \<Rightarrow> (string \<times> string) list" where
  "env_vars envs =
     fold (\<lambda>e vars. case strings_Cut e CHR ''='' of (k, v, found) \<Rightarrow> assign k v vars)
       (sort envs) []"

definition api_env :: "string \<Rightarrow> world \<Rightarrow> request \<Rightarrow> run \<Rightarrow> http_response \<times> run" where
  "api_env port w r c =
     (\<lparr>code = StatusOK, content_type = ''application/json'',
       payload = Env_doc (sort_key fst (env_vars (environ w)))\<rparr>, c)"

text \<open>\<^verbatim>\<open>GET /probe\<close> of the api: the peer is the worker, named by \<^verbatim>\<open>WORKER_URL\<close>.\<close>

definition api_probe :: "string \<Rightarrow> world \<Rightarrow> request \<Rightarrow> run \<Rightarrow> http_response \<times> run" where
  "api_probe port w r c =
     (let workerURL = os_Getenv (environ w) ''WORKER_URL'' in
      if workerURL = [] then
        (JSON (now w) StatusOK
           \<lparr>Service = ''api'', Status = ''skipped'', Port = port, Timestamp = '''',
            Message = ''WORKER_URL not set '' @ em_dash
              @ '' set it to the worker's internal address to test network isolation''\<rparr>, c)
      else
        (case client_Get w (workerURL @ ''/healthz'') of
           Get_error err \<Rightarrow>
             (JSON (now w) StatusOK
                \<lparr>Service = ''api'', Status = ''isolated'', Port = port, Timestamp = '''',
                 Message = ''cannot reach worker at '' @ workerURL @ '': '' @ err @ '' ''
                   @ em_dash @ '' network isolation is working''\<rparr>, c)
         | Get_ok sc \<Rightarrow>
             (JSON (now w) StatusOK
                \<lparr>Service = ''api'', Status = ''NOT_ISOLATED'', Port = port, Timestamp = '''',
                 Message = ''reached worker at '' @ workerURL @ '' '' @ em_dash
                   @ '' got HTTP '' @ show_nat sc @ '' '' @ em_dash
                   @ '' network isolation is BROKEN''\<rparr>, c)))"

section \<open>The other handlers of the worker (pkg/shared/response.go, worker.Run)\<close>

definition worker_healthz_fail :: "string \<Rightarrow> world \<Rightarrow> request \<Rightarrow> run \<Rightarrow> http_response \<times> run" where
  "worker_healthz_fail port w r c =
     (let c1 = forceFail_Store True c
      in (JSON (now w) StatusOK
            \<lparr>Service = ''worker'', Status = ''ok'', Port = port, Timestamp = '''',
             Message = ''healthcheck will now fail''\<rparr>, c1))"

definition worker_healthz_recover :: "string \<Rightarrow> world \<Rightarrow> request \<Rightarrow> run \<Rightarrow> http_response \<times> run" where
  "worker_healthz_recover port w r c =
     (let c1 = forceFail_Store False c
      in (JSON (now w) StatusOK
            \<lparr>Service = ''worker'', Status = ''ok'', Port = port, Timestamp = '''',
             Message = ''healthcheck will now pass''\<rparr>, c1))"

definition worker_root :: "string \<Rightarrow> world \<Rightarrow> request \<Rightarrow> run \<Rightarrow> http_response \<times> run" where
  "worker_root port w r c =
     (JSON (now w) StatusOK
        \<lparr>Service = ''worker'', Status = ''ok'', Port = port, Timestamp = '''',
         Message = ''background worker running''\<rparr>, c)"

text \<open>\<^verbatim>\<open>GET /probe\<close> of the worker: the peer is the api, named by \<^verbatim>\<open>API_URL\<close>.\<close>

definition worker_probe :: "string \<Rightarrow> world \<Rightarrow> request \<Rightarrow> run \<Rightarrow> http_response \<times> run" where
  "worker_probe port w r c =
     (let apiURL = os_Getenv (environ w) ''API_URL'' in
      if apiURL = [] then
        (JSON (now w) StatusOK
           \<lparr>Service = ''worker'', Status = ''skipped'', Port = port, Timestamp = '''',
            Message = ''API_URL not set '' @ em_dash
              @ '' set it to the api's internal address to test network isolation''\<rparr>, c)
      else
        (case client_Get w (apiURL @ ''/healthz'') of
           Get_error err \<Rightarrow>
             (JSON (now w) StatusOK
                \<lparr>Service = ''worker'', Status = ''isolated'', Port = port, Timestamp = '''',
                 Message = ''cannot reach api at '' @ apiURL @ '': '' @ err @ '' ''
                   @ em_dash @ '' network isolation is working''\<rparr>, c)
         | Get_ok sc \<Rightarrow>
             (JSON (now w) StatusOK
                \<lparr>Service = ''worker'', Status = ''NOT_ISOLATED'', Port = port, Timestamp = '''',
                 Message = ''reached api at '' @ apiURL @ '' '' @ em_dash
                   @ '' got HTTP '' @ show_nat sc @ '' '' @ em_dash
                   @ '' network isolation is BROKEN''\<rparr>, c)))"

section \<open>Decoding JSON (encoding/json, as GET /protected uses it)\<close>

text \<open>
  \<^verbatim>\<open>json.Unmarshal\<close> first runs the scanner of \<^verbatim>\<open>encoding/json\<close> over the whole input, one
  byte at a time, with a stack of the open arrays and objects, and then stores the value.
  The model does both in one pass: \<open>mode\<close> is the scanner's step function, a \<open>frame\<close> is
  an open array (its elements so far, newest first) or an open object (its members so far,
  newest first, and the key whose value is awaited).
\<close>

datatype frame =
  In_array "json list"
  | In_object "(string \<times> json) list" "string option"

datatype mode =
  Begin_value
  | Begin_value_or_empty
  | Begin_string_or_empty
  | Begin_string
  | After_key
  | End_value
  | End_top json
  | In_string string
  | In_string_esc string
  | In_string_u nat string
  | Num_neg string
  | Num_1 string
  | Num_0 string
  | Num_dot string
  | Num_dot0 string
  | Num_e string
  | Num_esign string
  | Num_e0 string
  | Lit string json
  | Err

type_synonym scan = "mode \<times> frame list"

definition is_space :: "char \<Rightarrow> bool" where
  "is_space ch = (ch = CHR '' '' \<or> ch = CHR 0x09 \<or> ch = CHR 0x0D \<or> ch = CHR 0x0A)"

definition is_digit :: "char \<Rightarrow> bool" where
  "is_digit ch = (ch \<in> set ''0123456789'')"

definition is_hex :: "char \<Rightarrow> bool" where
  "is_hex ch = (ch \<in> set ''0123456789abcdefABCDEF'')"

abbreviation maxNestingDepth :: nat where "maxNestingDepth \<equiv> 10000"

text \<open>A finished value goes to the innermost open container, or ends the document.\<close>

fun put_value :: "json \<Rightarrow> frame list \<Rightarrow> scan" where
  "put_value v [] = (End_top v, [])"
| "put_value v (In_array acc # fs) = (End_value, In_array (v # acc) # fs)"
| "put_value v (In_object ms (Some k) # fs) = (End_value, In_object ((k, v) # ms) None # fs)"
| "put_value v (In_object ms None # fs) = (Err, [])"

text \<open>A finished string is a key when the innermost container is an object that awaits
  one, and a value otherwise.\<close>

fun put_string :: "string \<Rightarrow> frame list \<Rightarrow> scan" where
  "put_string s (In_object ms None # fs) = (After_key, In_object ms (Some s) # fs)"
| "put_string s fs = put_value (JString s) fs"

text \<open>\<^verbatim>\<open>stateEndValue\<close>: after a value, inside a container.\<close>

fun end_value :: "frame list \<Rightarrow> char \<Rightarrow> scan" where
  "end_value [] ch = (Err, [])"
| "end_value (In_array acc # fs) ch =
     (if is_space ch then (End_value, In_array acc # fs)
      else if ch = CHR '','' then (Begin_value, In_array acc # fs)
      else if ch = CHR '']'' then put_value (JArray (rev acc)) fs
      else (Err, []))"
| "end_value (In_object ms None # fs) ch =
     (if is_space ch then (End_value, In_object ms None # fs)
      else if ch = CHR '','' then (Begin_string, In_object ms None # fs)
      else if ch = CHR ''}'' then put_value (JObject (rev ms)) fs
      else (Err, []))"
| "end_value (In_object ms (Some k) # fs) ch = (Err, [])"

text \<open>The byte that ends a number is then read as the byte after a value
  (\<^verbatim>\<open>stateEndValue\<close>, or \<^verbatim>\<open>stateEndTop\<close> when the number is the whole document).\<close>

fun after_value :: "scan \<Rightarrow> char \<Rightarrow> scan" where
  "after_value (End_top v, fs) ch = (if is_space ch then (End_top v, fs) else (Err, []))"
| "after_value (End_value, fs) ch = end_value fs ch"
| "after_value (m, fs) ch = (Err, [])"

text \<open>\<^verbatim>\<open>stateBeginValue\<close> and \<^verbatim>\<open>stateBeginString\<close>.\<close>

definition begin_value :: "frame list \<Rightarrow> char \<Rightarrow> scan" where
  "begin_value fs ch =
     (if is_space ch then (Begin_value, fs)
      else if ch = CHR ''{'' then
        (if length fs + 1 \<le> maxNestingDepth then (Begin_string_or_empty, In_object [] None # fs)
         else (Err, []))
      else if ch = CHR ''['' then
        (if length fs + 1 \<le> maxNestingDepth then (Begin_value_or_empty, In_array [] # fs)
         else (Err, []))
      else if ch = CHR 0x22 then (In_string [], fs)
      else if ch = CHR ''-'' then (Num_neg [ch], fs)
      else if ch = CHR ''0'' then (Num_0 [ch], fs)
      else if is_digit ch then (Num_1 [ch], fs)
      else if ch = CHR ''t'' then (Lit ''rue'' (JBool True), fs)
      else if ch = CHR ''f'' then (Lit ''alse'' (JBool False), fs)
      else if ch = CHR ''n'' then (Lit ''ull'' JNull, fs)
      else (Err, []))"

definition begin_string :: "frame list \<Rightarrow> char \<Rightarrow> scan" where
  "begin_string fs ch =
     (if is_space ch then (Begin_string, fs)
      else if ch = CHR 0x22 then (In_string [], fs)
      else (Err, []))"

text \<open>The numbers: \<^verbatim>\<open>state0\<close>, \<^verbatim>\<open>state1\<close>, \<^verbatim>\<open>stateDot0\<close>, \<^verbatim>\<open>stateE\<close>, \<^verbatim>\<open>stateESign\<close>,
  \<^verbatim>\<open>stateE0\<close>. The literal read so far is kept newest byte last.\<close>

definition num_0 :: "string \<Rightarrow> frame list \<Rightarrow> char \<Rightarrow> scan" where
  "num_0 lit fs ch =
     (if ch = CHR ''.'' then (Num_dot (lit @ [ch]), fs)
      else if ch = CHR ''e'' \<or> ch = CHR ''E'' then (Num_e (lit @ [ch]), fs)
      else after_value (put_value (JNumber lit) fs) ch)"

definition num_esign :: "string \<Rightarrow> frame list \<Rightarrow> char \<Rightarrow> scan" where
  "num_esign lit fs ch = (if is_digit ch then (Num_e0 (lit @ [ch]), fs) else (Err, []))"

text \<open>One step of the scanner.\<close>

fun step :: "scan \<Rightarrow> char \<Rightarrow> scan" where
  "step (Begin_value, fs) ch = begin_value fs ch"
| "step (Begin_value_or_empty, fs) ch =
     (if is_space ch then (Begin_value_or_empty, fs)
      else if ch = CHR '']'' then end_value fs ch
      else begin_value fs ch)"
| "step (Begin_string_or_empty, fs) ch =
     (if is_space ch then (Begin_string_or_empty, fs)
      else if ch = CHR ''}'' then end_value fs ch
      else begin_string fs ch)"
| "step (Begin_string, fs) ch = begin_string fs ch"
| "step (After_key, fs) ch =
     (if is_space ch then (After_key, fs)
      else if ch = CHR '':'' then (Begin_value, fs)
      else (Err, []))"
| "step (End_value, fs) ch = end_value fs ch"
| "step (End_top v, fs) ch = after_value (End_top v, fs) ch"
| "step (In_string s, fs) ch =
     (if ch = CHR 0x22 then put_string s fs
      else if ch = CHR 0x5C then (In_string_esc (s @ [ch]), fs)
      else if (of_char ch :: nat) < 0x20 then (Err, [])
      else (In_string (s @ [ch]), fs))"
| "step (In_string_esc s, fs) ch =
     (if ch \<in> set [CHR ''b'', CHR ''f'', CHR ''n'', CHR ''r'', CHR ''t'', CHR 0x5C, CHR ''/'', CHR 0x22]
      then (In_string (s @ [ch]), fs)
      else if ch = CHR ''u'' then (In_string_u 4 (s @ [ch]), fs)
      else (Err, []))"
| "step (In_string_u n s, fs) ch =
     (if is_hex ch then (if n \<le> 1 then (In_string (s @ [ch]), fs) else (In_string_u (n - 1) (s @ [ch]), fs))
      else (Err, []))"
| "step (Num_neg lit, fs) ch =
     (if ch = CHR ''0'' then (Num_0 (lit @ [ch]), fs)
      else if is_digit ch then (Num_1 (lit @ [ch]), fs)
      else (Err, []))"
| "step (Num_1 lit, fs) ch =
     (if is_digit ch then (Num_1 (lit @ [ch]), fs) else num_0 lit fs ch)"
| "step (Num_0 lit, fs) ch = num_0 lit fs ch"
| "step (Num_dot lit, fs) ch =
     (if is_digit ch then (Num_dot0 (lit @ [ch]), fs) else (Err, []))"
| "step (Num_dot0 lit, fs) ch =
     (if is_digit ch then (Num_dot0 (lit @ [ch]), fs)
      else if ch = CHR ''e'' \<or> ch = CHR ''E'' then (Num_e (lit @ [ch]), fs)
      else after_value (put_value (JNumber lit) fs) ch)"
| "step (Num_e lit, fs) ch =
     (if ch = CHR ''+'' \<or> ch = CHR ''-'' then (Num_esign (lit @ [ch]), fs)
      else num_esign lit fs ch)"
| "step (Num_esign lit, fs) ch = num_esign lit fs ch"
| "step (Num_e0 lit, fs) ch =
     (if is_digit ch then (Num_e0 (lit @ [ch]), fs)
      else after_value (put_value (JNumber lit) fs) ch)"
| "step (Lit [] v, fs) ch = (Err, [])"
| "step (Lit (x # xs) v, fs) ch =
     (if ch = x then (if xs = [] then put_value v fs else (Lit xs v, fs)) else (Err, []))"
| "step (Err, fs) ch = (Err, [])"

text \<open>\<^verbatim>\<open>checkValid\<close> and the scanner's \<^verbatim>\<open>eof\<close>: all bytes are stepped through, then a space, and
  the document must be complete.\<close>

definition json_parse :: "string \<Rightarrow> json option" where
  "json_parse data =
     (case step (foldl step (Begin_value, []) data) CHR '' '' of
        (End_top v, fs) \<Rightarrow> Some v
      | _ \<Rightarrow> None)"

definition json_Valid :: "string \<Rightarrow> bool" where
  "json_Valid data = (json_parse data \<noteq> None)"

text \<open>
  \<^verbatim>\<open>strconv.ParseFloat(s, 64)\<close> on a number literal, as far as its error goes: the decoder
  turns every number into a float64, and the conversion fails with a range error when the
  literal rounds beyond the largest float64, that is from \<open>2^1024 - 2^970\<close> on. The digits
  of the exponent are accumulated only while the exponent read so far is below 10000.
\<close>

definition digit_val :: "char \<Rightarrow> int" where
  "digit_val ch = of_char ch - 48"

definition digits_val :: "string \<Rightarrow> int" where
  "digits_val ds = foldl (\<lambda>n ch. 10 * n + digit_val ch) 0 ds"

definition exp_val :: "string \<Rightarrow> int" where
  "exp_val ds = foldl (\<lambda>e ch. if e < 10000 then e * 10 + digit_val ch else e) 0 ds"

definition float64_limit :: int where
  "float64_limit = 2 ^ 1024 - 2 ^ 970"

definition ParseFloat_ok :: "string \<Rightarrow> bool" where
  "ParseFloat_ok lit =
     (let unsigned = (if take 1 lit = ''-'' then drop 1 lit else lit);
          is_e = (\<lambda>ch. ch = CHR ''e'' \<or> ch = CHR ''E'');
          mant = takeWhile (\<lambda>ch. \<not> is_e ch) unsigned;
          ex = drop 1 (dropWhile (\<lambda>ch. \<not> is_e ch) unsigned);
          ip = takeWhile (\<lambda>ch. ch \<noteq> CHR ''.'') mant;
          fp = drop 1 (dropWhile (\<lambda>ch. ch \<noteq> CHR ''.'') mant);
          e = (if take 1 ex = ''-'' then - exp_val (drop 1 ex)
               else if take 1 ex = ''+'' then exp_val (drop 1 ex)
               else exp_val ex);
          d = digits_val (ip @ fp);
          scale = e - int (length fp)
      in if 0 \<le> scale then d * 10 ^ nat scale < float64_limit
         else d < float64_limit * 10 ^ nat (- scale))"

text \<open>The number literals of a document, in the order the decoder meets them.\<close>

fun numbers_of :: "json \<Rightarrow> string list" where
  "numbers_of (JNumber lit) = [lit]"
| "numbers_of (JArray xs) = concat (map numbers_of xs)"
| "numbers_of (JObject ms) = concat (map (\<lambda>kv. numbers_of (snd kv)) ms)"
| "numbers_of JNull = []"
| "numbers_of (JBool b) = []"
| "numbers_of (JString s) = []"

section \<open>Strings and numbers of a JSON document (unicode/utf8, strconv, encoding/json)\<close>

text \<open>
  \<^verbatim>\<open>utf8.DecodeRune\<close>, as far as its size goes: the number of bytes of the well-formed
  UTF-8 sequence at the head of the string, and 0 when there is none (Go then returns
  \<^verbatim>\<open>RuneError\<close> with size 1). Overlong forms, surrogates and values above U+10FFFF are not
  well formed.
\<close>

definition in_range :: "nat \<Rightarrow> nat \<Rightarrow> char \<Rightarrow> bool" where
  "in_range lo hi b = (lo \<le> of_char b \<and> (of_char b :: nat) \<le> hi)"

definition utf8_size :: "string \<Rightarrow> nat" where
  "utf8_size s =
     (case s of
        [] \<Rightarrow> 0
      | b # bs \<Rightarrow>
          (let n = (of_char b :: nat) in
           if n < 0x80 then 1
           else if 0xC2 \<le> n \<and> n \<le> 0xDF then
             (case bs of
                b1 # _ \<Rightarrow> if in_range 0x80 0xBF b1 then 2 else 0
              | _ \<Rightarrow> 0)
           else if 0xE0 \<le> n \<and> n \<le> 0xEF then
             (case bs of
                b1 # b2 # _ \<Rightarrow>
                  if in_range (if n = 0xE0 then 0xA0 else 0x80) (if n = 0xED then 0x9F else 0xBF) b1
                     \<and> in_range 0x80 0xBF b2
                  then 3 else 0
              | _ \<Rightarrow> 0)
           else if 0xF0 \<le> n \<and> n \<le> 0xF4 then
             (case bs of
                b1 # b2 # b3 # _ \<Rightarrow>
                  if in_range (if n = 0xF0 then 0x90 else 0x80) (if n = 0xF4 then 0x8F else 0xBF) b1
                     \<and> in_range 0x80 0xBF b2 \<and> in_range 0x80 0xBF b3
                  then 4 else 0
              | _ \<Rightarrow> 0)
           else 0))"

text \<open>U+FFFD, the replacement character, in UTF-8.\<close>

definition replacement :: string where
  "replacement = [CHR 0xEF, CHR 0xBF, CHR 0xBD]"

text \<open>\<^verbatim>\<open>utf8.ValidString\<close>.\<close>

fun utf8_ValidString :: "string \<Rightarrow> bool" where
  "utf8_ValidString [] = True"
| "utf8_ValidString (b # bs) =
     (case utf8_size (b # bs) of
        0 \<Rightarrow> False
      | Suc k \<Rightarrow> utf8_ValidString (drop k bs))"

text \<open>
  A Go string as the encoder writes it and a JSON reader reads it back: every byte that
  does not start a well-formed sequence is written as U+FFFD, everything else stays (the
  escapes the encoder uses for quotes, control characters and the like denote the same
  characters).
\<close>

fun encoded_string :: "string \<Rightarrow> string" where
  "encoded_string [] = []"
| "encoded_string (b # bs) =
     (case utf8_size (b # bs) of
        0 \<Rightarrow> replacement @ encoded_string bs
      | Suc k \<Rightarrow> b # take k bs @ encoded_string (drop k bs))"

text \<open>\<^verbatim>\<open>utf8.EncodeRune\<close> and \<^verbatim>\<open>utf16.DecodeRune\<close>.\<close>

definition EncodeRune :: "nat \<Rightarrow> string" where
  "EncodeRune r =
     (if r < 0x80 then [char_of r]
      else if r < 0x800 then [char_of (0xC0 + r div 64), char_of (0x80 + r mod 64)]
      else if (0xD800 \<le> r \<and> r < 0xE000) \<or> 0x10FFFF < r then replacement
      else if r < 0x10000 then
        [char_of (0xE0 + r div 4096), char_of (0x80 + r div 64 mod 64), char_of (0x80 + r mod 64)]
      else
        [char_of (0xF0 + r div 262144), char_of (0x80 + r div 4096 mod 64),
         char_of (0x80 + r div 64 mod 64), char_of (0x80 + r mod 64)])"

definition utf16_DecodeRune :: "nat \<Rightarrow> nat option \<Rightarrow> nat" where
  "utf16_DecodeRune r1 r2 =
     (case r2 of
        Some r2' \<Rightarrow>
          if 0xD800 \<le> r1 \<and> r1 < 0xDC00 \<and> 0xDC00 \<le> r2' \<and> r2' < 0xE000
          then (r1 - 0xD800) * 1024 + (r2' - 0xDC00) + 0x10000
          else 0xFFFD
      | None \<Rightarrow> 0xFFFD)"

text \<open>\<^verbatim>\<open>getu4\<close>: the value of an escape \<^verbatim>\<open>\uXXXX\<close> at the head of the string, if there is
  one.\<close>

definition hex_val :: "char \<Rightarrow> nat" where
  "hex_val ch =
     (let n = (of_char ch :: nat) in
      if 48 \<le> n \<and> n \<le> 57 then n - 48
      else if 97 \<le> n \<and> n \<le> 102 then n - 87
      else if 65 \<le> n \<and> n \<le> 70 then n - 55
      else 0)"

definition getu4 :: "string \<Rightarrow> nat option" where
  "getu4 s =
     (case s of
        b # u # h1 # h2 # h3 # h4 # _ \<Rightarrow>
          if b = CHR 0x5C \<and> u = CHR ''u'' \<and> is_hex h1 \<and> is_hex h2 \<and> is_hex h3 \<and> is_hex h4
          then Some (((hex_val h1 * 16 + hex_val h2) * 16 + hex_val h3) * 16 + hex_val h4)
          else None
      | _ \<Rightarrow> None)"

definition escape_byte :: "char \<Rightarrow> char" where
  "escape_byte e =
     (if e = CHR ''b'' then CHR 0x08
      else if e = CHR ''f'' then CHR 0x0C
      else if e = CHR ''n'' then CHR 0x0A
      else if e = CHR ''r'' then CHR 0x0D
      else if e = CHR ''t'' then CHR 0x09
      else e)"

text \<open>
  \<^verbatim>\<open>unquoteBytes\<close>, on the bytes between the quotes of a string the scanner has accepted:
  an escape \<^verbatim>\<open>\uXXXX\<close> becomes its character in UTF-8, two of them that form a surrogate
  pair become one character, a surrogate without its partner becomes U+FFFD; the short
  escapes become their byte; a byte that does not start a well-formed sequence becomes
  U+FFFD.
\<close>

function unquote :: "string \<Rightarrow> string" where
  "unquote [] = []"
| "unquote (c # s) =
     (if c = CHR 0x5C then
        (case getu4 (c # s) of
           Some rr \<Rightarrow>
             if 0xD800 \<le> rr \<and> rr < 0xE000 then
               (if utf16_DecodeRune rr (getu4 (drop 5 s)) \<noteq> 0xFFFD
                then EncodeRune (utf16_DecodeRune rr (getu4 (drop 5 s))) @ unquote (drop 11 s)
                else replacement @ unquote (drop 5 s))
             else EncodeRune rr @ unquote (drop 5 s)
         | None \<Rightarrow>
             (case s of
                [] \<Rightarrow> []
              | e # s' \<Rightarrow> escape_byte e # unquote s'))
      else if (of_char c :: nat) < 0x80 then c # unquote s
      else
        (case utf8_size (c # s) of
           0 \<Rightarrow> replacement @ unquote s
         | Suc k \<Rightarrow> c # take k s @ unquote (drop k s)))"
  by pat_completeness auto
termination
  by (relation "measure length") auto

text \<open>
  The float64 nearest to a positive fraction \<open>a / b\<close>, ties to the even mantissa, as
  \<^verbatim>\<open>strconv.ParseFloat\<close> gives it: mantissa and exponent, the mantissa from \<open>2^52\<close> up to
  below \<open>2^53\<close> unless the exponent is -1074 (a subnormal number) or the result is zero.
  \<open>bits\<close> is the length of a number in binary.
\<close>

function bits :: "int \<Rightarrow> int" where
  "bits n = (if n \<le> 0 then 0 else 1 + bits (n div 2))"
  by pat_completeness auto
termination
  by (relation "measure nat") auto

declare bits.simps [simp del]

definition round_half_even :: "int \<Rightarrow> int \<Rightarrow> int" where
  "round_half_even num den =
     (let m = num div den; r = num mod den
      in if den < 2 * r \<or> (2 * r = den \<and> odd m) then m + 1 else m)"

definition float64_round :: "int \<Rightarrow> int \<Rightarrow> int \<times> int" where
  "float64_round a b =
     (let e0 = bits a - bits b;
          l = (if (if 0 \<le> e0 then b * 2 ^ nat e0 \<le> a else b \<le> a * 2 ^ nat (- e0))
               then e0 else e0 - 1);
          e = max (l - 52) (- 1074);
          m = (if 0 \<le> e then round_half_even a (b * 2 ^ nat e)
               else round_half_even (a * 2 ^ nat (- e)) b)
      in if m = 0 then (0, 0) else if m = 2 ^ 53 then (2 ^ 52, e + 1) else (m, e))"

text \<open>The float64 of a number literal that \<open>ParseFloat_ok\<close> accepts; the sign, the digits
  and the exponent are read as there.\<close>

definition ParseFloat :: "string \<Rightarrow> go_any" where
  "ParseFloat lit =
     (let neg = (take 1 lit = ''-'');
          unsigned = (if neg then drop 1 lit else lit);
          is_e = (\<lambda>ch. ch = CHR ''e'' \<or> ch = CHR ''E'');
          mant = takeWhile (\<lambda>ch. \<not> is_e ch) unsigned;
          ex = drop 1 (dropWhile (\<lambda>ch. \<not> is_e ch) unsigned);
          ip = takeWhile (\<lambda>ch. ch \<noteq> CHR ''.'') mant;
          fp = drop 1 (dropWhile (\<lambda>ch. ch \<noteq> CHR ''.'') mant);
          e = (if take 1 ex = ''-'' then - exp_val (drop 1 ex)
               else if take 1 ex = ''+'' then exp_val (drop 1 ex)
               else exp_val ex);
          d = digits_val (ip @ fp);
          scale = e - int (length fp);
          me = (if 0 \<le> scale then float64_round (d * 10 ^ nat scale) 1
                else float64_round d (10 ^ nat (- scale)))
      in Go_float64 neg (fst me) (snd me))"

text \<open>
  Storing into a map: \<^verbatim>\<open>m[key] = value\<close> replaces the value of a key that is there. A
  map built from a list of members is then listed by ascending key.
\<close>

fun store :: "string \<Rightarrow> 'v \<Rightarrow> (string \<times> 'v) list \<Rightarrow> (string \<times> 'v) list" where
  "store k v [] = [(k, v)]"
| "store k v ((k', v') # kvs) =
     (if k' = k then (k, v) # kvs else (k', v') # store k v kvs)"

definition make_map :: "(string \<times> 'v) list \<Rightarrow> (string \<times> 'v) list" where
  "make_map members = sort_key fst (foldl (\<lambda>m kv. store (fst kv) (snd kv) m) [] members)"

text \<open>
  The Go value that the decoder stores for a document: strings and keys unquoted, numbers
  as float64 (nil where the number does not convert; the decoder then reports the
  error), an array as a slice, an object as a map, in which the last value of a repeated
  key stays.
\<close>

fun decode_any :: "json \<Rightarrow> go_any" where
  "decode_any JNull = Go_nil"
| "decode_any (JBool b) = Go_bool b"
| "decode_any (JNumber lit) = (if ParseFloat_ok lit then ParseFloat lit else Go_nil)"
| "decode_any (JString s) = Go_string (unquote s)"
| "decode_any (JArray xs) = Go_slice (map decode_any xs)"
| "decode_any (JObject ms) =
     Go_map (make_map (map (\<lambda>kv. (unquote (fst kv), decode_any (snd kv))) ms))"

datatype unmarshal_error = SyntaxError | UnmarshalTypeError string

text \<open>
  \<^verbatim>\<open>json.Unmarshal([]byte(principal), &parsed)\<close> with \<^verbatim>\<open>parsed\<close> of type \<^verbatim>\<open>map[string]any\<close>:
  a syntax error when the scanner rejects the text; \<^verbatim>\<open>null\<close> leaves the map nil, without an
  error; an object is stored, with an error when one of its numbers does not convert; a
  document of any other kind is a type error. Without an error the result is the value
  of \<^verbatim>\<open>parsed\<close>.
\<close>

definition json_Unmarshal_map :: "string \<Rightarrow> unmarshal_error + go_any" where
  "json_Unmarshal_map data =
     (case json_parse data of
        None \<Rightarrow> Inl SyntaxError
      | Some JNull \<Rightarrow> Inr Go_nil
      | Some (JObject ms) \<Rightarrow>
          (case filter (\<lambda>lit. \<not> ParseFloat_ok lit) (numbers_of (JObject ms)) of
             [] \<Rightarrow> Inr (decode_any (JObject ms))
           | lit # _ \<Rightarrow> Inl (UnmarshalTypeError (''number '' @ lit)))
      | Some (JBool b) \<Rightarrow> Inl (UnmarshalTypeError ''bool'')
      | Some (JNumber lit) \<Rightarrow> Inl (UnmarshalTypeError ''number'')
      | Some (JString s) \<Rightarrow> Inl (UnmarshalTypeError ''string'')
      | Some (JArray xs) \<Rightarrow> Inl (UnmarshalTypeError ''array''))"

section \<open>GET /protected (svc/api/main.go)\<close>

text \<open>\<^verbatim>\<open>r.Header.Get\<close>: the first value stored under the (canonical) name, or the empty
  string.\<close>

definition Header_Get :: "(string \<times> string list) list \<Rightarrow> string \<Rightarrow> string" where
  "Header_Get h key = (case map_of h key of None \<Rightarrow> [] | Some [] \<Rightarrow> [] | Some (v # vs) \<Rightarrow> v)"

definition api_protected :: "string \<Rightarrow> world \<Rightarrow> request \<Rightarrow> run \<Rightarrow> http_response \<times> run" where
  "api_protected port w r c =
     (let c1 = inflight_Add 1 c;
          principal = Header_Get (req_header r) ''X-Unkey-Principal''
      in if principal = [] then
           (JSON (now w) StatusUnauthorized
              \<lparr>Service = ''api'', Status = ''unauthorized'', Port = port, Timestamp = '''',
               Message = ''missing X-Unkey-Principal header '' @ em_dash
                 @ '' sentinel middleware not configured?''\<rparr>,
            inflight_Add (- 1) c1)
         else
           (case json_Unmarshal_map principal of
              Inl err \<Rightarrow>
                (JSON (now w) StatusOK
                   \<lparr>Service = ''api'', Status = ''ok'', Port = port, Timestamp = '''',
                    Message = ''principal (raw): '' @ principal\<rparr>,
                 inflight_Add (- 1) c1)
            | Inr parsed \<Rightarrow>
                (\<lparr>code = StatusOK, content_type = ''application/json'',
                  payload = Principal_doc ''api'' ''authenticated'' port parsed\<rparr>,
                 inflight_Add (- 1) c1)))"

section \<open>Routing (net/http.ServeMux with the patterns of the source)\<close>

text \<open>
  Every pattern of the source is a method, a space and a literal path. A path that ends
  in a slash matches every path it is a prefix of; any other path matches itself only. A
  pattern with method GET also matches HEAD. Among the patterns that match, the one with
  the longest path wins. When no pattern matches but some pattern matches the path under
  another method, the multiplexer answers 405; otherwise 404. The request's path is the
  cleaned path the multiplexer matches on.
\<close>

datatype api_handler_id =
  Root | Healthz | Healthz_fail | Healthz_recover | Slow | Protected | Env | Probe

datatype worker_handler_id =
  W_healthz | W_healthz_fail | W_healthz_recover | W_root | W_probe

datatype 'h route_result = Handler 'h | MethodNotAllowed | NotFound

type_synonym 'h routes = "(string \<times> string \<times> 'h) list"

definition method_matches :: "string \<Rightarrow> string \<Rightarrow> bool" where
  "method_matches pm m = (pm = m \<or> (pm = ''GET'' \<and> m = ''HEAD''))"

definition path_matches :: "string \<Rightarrow> string \<Rightarrow> bool" where
  "path_matches pp p =
     (if pp \<noteq> [] \<and> last pp = CHR ''/'' then take (length pp) p = pp else pp = p)"

fun longest :: "'h routes \<Rightarrow> (string \<times> string \<times> 'h) option" where
  "longest [] = None"
| "longest (x # xs) =
     (case longest xs of
        None \<Rightarrow> Some x
      | Some y \<Rightarrow> if length (fst (snd y)) > length (fst (snd x)) then Some y else Some x)"

definition route :: "'h routes \<Rightarrow> string \<Rightarrow> string \<Rightarrow> 'h route_result" where
  "route table m p =
     (case longest (filter (\<lambda>(pm, pp, h). method_matches pm m \<and> path_matches pp p) table) of
        Some (pm, pp, h) \<Rightarrow> Handler h
      | None \<Rightarrow>
          if filter (\<lambda>(pm, pp, h). path_matches pp p) table \<noteq> [] then MethodNotAllowed
          else NotFound)"

text \<open>The tables, in the order of the \<^verbatim>\<open>mux.HandleFunc\<close> calls: svc/api/main.go, the
  older api of src/unnamed/part_001, \<^verbatim>\<open>worker.Run\<close> and the older worker \<^verbatim>\<open>main\<close> (both in
  pkg/shared/response.go).\<close>

definition api_routes :: "api_handler_id routes" where
  "api_routes =
     [(''GET'', ''/'', Root),
      (''GET'', ''/healthz'', Healthz),
      (''POST'', ''/healthz'', Healthz),
      (''POST'', ''/healthz/fail'', Healthz_fail),
      (''POST'', ''/healthz/recover'', Healthz_recover),
      (''GET'', ''/slow'', Slow),
      (''GET'', ''/protected'', Protected),
      (''GET'', ''/env'', Env),
      (''GET'', ''/probe'', Probe)]"

definition api_old_routes :: "api_handler_id routes" where
  "api_old_routes =
     [(''GET'', ''/'', Root),
      (''GET'', ''/healthz'', Healthz),
      (''POST'', ''/healthz'', Healthz),
      (''POST'', ''/healthz/fail'', Healthz_fail),
      (''POST'', ''/healthz/recover'', Healthz_recover),
      (''GET'', ''/slow'', Slow)]"

definition worker_routes :: "worker_handler_id routes" where
  "worker_routes =
     [(''GET'', ''/healthz'', W_healthz),
      (''POST'', ''/healthz/fail'', W_healthz_fail),
      (''POST'', ''/healthz/recover'', W_healthz_recover),
      (''GET'', ''/'', W_root),
      (''GET'', ''/probe'', W_probe)]"

definition worker_main_routes :: "worker_handler_id routes" where
  "worker_main_routes =
     [(''GET'', ''/healthz'', W_healthz),
      (''POST'', ''/healthz/fail'', W_healthz_fail),
      (''POST'', ''/healthz/recover'', W_healthz_recover),
      (''GET'', ''/'', W_root)]"

section \<open>Serving a request\<close>

fun api_handler ::
  "api_handler_id \<Rightarrow> string \<Rightarrow> world \<Rightarrow> request \<Rightarrow> run \<Rightarrow> http_response \<times> run" where
  "api_handler Root = api_root"
| "api_handler Healthz = api_healthz"
| "api_handler Healthz_fail = api_healthz_fail"
| "api_handler Healthz_recover = api_healthz_recover"
| "api_handler Slow = api_slow"
| "api_handler Protected = api_protected"
| "api_handler Env = api_env"
| "api_handler Probe = api_probe"

fun worker_handler ::
  "worker_handler_id \<Rightarrow> string \<Rightarrow> world \<Rightarrow> request \<Rightarrow> run \<Rightarrow> http_response \<times> run" where
  "worker_handler W_healthz = worker_healthz"
| "worker_handler W_healthz_fail = worker_healthz_fail"
| "worker_handler W_healthz_recover = worker_healthz_recover"
| "worker_handler W_root = worker_root"
| "worker_handler W_probe = worker_probe"

text \<open>The multiplexer's own answers: \<^verbatim>\<open>http.Error\<close> with the status text, and
  \<^verbatim>\<open>http.NotFound\<close>.\<close>

definition mux_error :: "nat \<Rightarrow> string \<Rightarrow> http_response" where
  "mux_error status text =
     \<lparr>code = status, content_type = ''text/plain; charset=utf-8'', payload = Plain text\<rparr>"

definition serve ::
  "'h routes \<Rightarrow> ('h \<Rightarrow> string \<Rightarrow> world \<Rightarrow> request \<Rightarrow> run \<Rightarrow> http_response \<times> run)
     \<Rightarrow> string \<Rightarrow> world \<Rightarrow> request \<Rightarrow> run \<Rightarrow> http_response \<times> run" where
  "serve table handler port w r c =
     (case route table (req_method r) (req_path r) of
        Handler h \<Rightarrow> handler h port w r c
      | MethodNotAllowed \<Rightarrow> (mux_error 405 (''Method Not Allowed'' @ [CHR 0x0A]), c)
      | NotFound \<Rightarrow> (mux_error 404 (''404 page not found'' @ [CHR 0x0A]), c))"

definition api_serve :: "string \<Rightarrow> world \<Rightarrow> request \<Rightarrow> run \<Rightarrow> http_response \<times> run" where
  "api_serve = serve api_routes api_handler"

definition api_old_serve :: "string \<Rightarrow> world \<Rightarrow> request \<Rightarrow> run \<Rightarrow> http_response \<times> run" where
  "api_old_serve = serve api_old_routes api_handler"

definition worker_serve :: "string \<Rightarrow> world \<Rightarrow> request \<Rightarrow> run \<Rightarrow> http_response \<times> run" where
  "worker_serve = serve worker_routes worker_handler"

definition worker_main_serve :: "string \<Rightarrow> world \<Rightarrow> request \<Rightarrow> run \<Rightarrow> http_response \<times> run" where
  "worker_main_serve = serve worker_main_routes worker_handler"

section \<open>The goroutines of a service\<close>

text \<open>
  The startup goroutine: sleep, then \<^verbatim>\<open>ready.Store(true)\<close>; three seconds in the api, two
  in the worker. It is started once and has no loop.
\<close>

definition api_startup :: "run \<Rightarrow> run" where
  "api_startup c = ready_Store True (time_Sleep 3000 c)"

definition worker_startup :: "run \<Rightarrow> run" where
  "worker_startup c = ready_Store True (time_Sleep 2000 c)"

text \<open>
  The shutdown goroutine of the worker, from the arrival of a signal on: two seconds of
  sleep, then \<^verbatim>\<open>os.Exit(0)\<close>.
\<close>

definition worker_shutdown :: "effect list" where
  "worker_shutdown = [Sleep 2000, Exit 0]"

text \<open>
  The shutdown goroutine of the api, from the arrival of a signal on. Each pass of the
  loop reads the counter; while it is positive, the \<^verbatim>\<open>select\<close> either finds the ten-second
  deadline fired and exits with 1, or sleeps 100 ms. The argument lists what the passes
  observe: the value \<^verbatim>\<open>inflight.Load()\<close> returns at the head of the loop and whether the
  deadline has fired at the \<^verbatim>\<open>select\<close>. A trace without \<open>Exit\<close> is a goroutine still in its
  loop after the observations given.
\<close>

fun api_shutdown :: "(64 word \<times> bool) list \<Rightarrow> effect list" where
  "api_shutdown [] = []"
| "api_shutdown ((n, fired) # obs) =
     (if 0 <s n then (if fired then [Exit 1] else Sleep 100 # api_shutdown obs)
      else [Exit 0])"

text \<open>
  A service as a whole, for what happens to its three atomics: the startup goroutine
  completes, or a request is served. Requests are served one after the other here; the
  flag \<open>pending\<close> says that the startup goroutine has not stored yet.
\<close>

datatype event = Startup | Request world request

type_synonym sys = "run \<times> bool"

definition init :: sys where
  "init = ((\<lparr>ready = False, forceFail = False, inflight = 0\<rparr>, []), True)"

fun api_step :: "string \<Rightarrow> sys \<Rightarrow> event \<Rightarrow> sys" where
  "api_step port (c, pending) Startup = (if pending then (api_startup c, False) else (c, pending))"
| "api_step port (c, pending) (Request w r) = (snd (api_serve port w r c), pending)"

fun worker_step :: "string \<Rightarrow> sys \<Rightarrow> event \<Rightarrow> sys" where
  "worker_step port (c, pending) Startup =
     (if pending then (worker_startup c, False) else (c, pending))"
| "worker_step port (c, pending) (Request w r) = (snd (worker_serve port w r c), pending)"

definition api_exec :: "string \<Rightarrow> event list \<Rightarrow> sys" where
  "api_exec port evs = foldl (api_step port) init evs"

definition worker_exec :: "string \<Rightarrow> event list \<Rightarrow> sys" where
  "worker_exec port evs = foldl (worker_step port) init evs"

section \<open>Readings of a response and of a trace\<close>

text \<open>The member \<^verbatim>\<open>port\<close> of the JSON document a response carries, when it has one.\<close>

definition port_field :: "http_response \<Rightarrow> string option" where
  "port_field resp =
     (case payload resp of
        Envelope e \<Rightarrow> Some (Port e)
      | Principal_doc sv st p v \<Rightarrow> Some p
      | Env_doc vars \<Rightarrow> map_of vars ''port''
      | Plain t \<Rightarrow> None)"

text \<open>The additions to the in-flight counter in a trace, and the stores to the readiness
  flag.\<close>

fun inflight_adds :: "effect list \<Rightarrow> 64 word list" where
  "inflight_adds [] = []"
| "inflight_adds (Add_inflight d # es) = d # inflight_adds es"
| "inflight_adds (e # es) = inflight_adds es"

fun ready_stores :: "effect list \<Rightarrow> bool list" where
  "ready_stores [] = []"
| "ready_stores (Store_ready b # es) = b # ready_stores es"
| "ready_stores (e # es) = ready_stores es"

text \<open>
  What the encoder writes for a body, as a reader of the JSON text gets it back: every
  string, and every key, goes through \<open>encoded_string\<close>. Plain text is written as it is.
\<close>

fun encoded_any :: "go_any \<Rightarrow> go_any" where
  "encoded_any Go_nil = Go_nil"
| "encoded_any (Go_bool b) = Go_bool b"
| "encoded_any (Go_float64 s m e) = Go_float64 s m e"
| "encoded_any (Go_string s) = Go_string (encoded_string s)"
| "encoded_any (Go_slice xs) = Go_slice (map encoded_any xs)"
| "encoded_any (Go_map kvs) =
     Go_map (map (\<lambda>kv. (encoded_string (fst kv), encoded_any (snd kv))) kvs)"

fun encoded :: "body \<Rightarrow> body" where
  "encoded (Envelope e) =
     Envelope \<lparr>Service = encoded_string (Service e), Status = encoded_string (Status e),
               Port = encoded_string (Port e), Timestamp = encoded_string (Timestamp e),
               Message = encoded_string (Message e)\<rparr>"
| "encoded (Principal_doc sv st p v) =
     Principal_doc (encoded_string sv) (encoded_string st) (encoded_string p) (encoded_any v)"
| "encoded (Env_doc vars) =
     Env_doc (map (\<lambda>kv. (encoded_string (fst kv), encoded_string (snd kv))) vars)"
| "encoded (Plain t) = Plain t"

definition emitted :: "http_response \<Rightarrow> http_response" where
  "emitted resp = resp\<lparr>payload := encoded (payload resp)\<rparr>"

section \<open>Concrete inputs\<close>

definition unreachable :: "string \<Rightarrow> get_result" where
  "unreachable url = Get_error ''connection refused''"

definition reachable :: "string \<Rightarrow> get_result" where
  "reachable url = Get_ok 503"

definition quiet_world :: world where
  "quiet_world = \<lparr>now = ''2026-01-01T00:00:00Z'', rand = 42, environ = [], client_Get = unreachable\<rparr>"

definition cold :: srv where
  "cold = \<lparr>ready = False, forceFail = False, inflight = 0\<rparr>"

definition warm :: srv where
  "warm = \<lparr>ready = True, forceFail = False, inflight = 0\<rparr>"

definition get :: "string \<Rightarrow> request" where
  "get p = \<lparr>req_method = ''GET'', req_path = p, req_header = [], req_body = []\<rparr>"

definition post :: "string \<Rightarrow> request" where
  "post p = \<lparr>req_method = ''POST'', req_path = p, req_header = [], req_body = []\<rparr>"

definition with_principal :: "string \<Rightarrow> request" where
  "with_principal v =
     \<lparr>req_method = ''GET'', req_path = ''/protected'',
      req_header = [(''X-Unkey-Principal'', [v])], req_body = []\<rparr>"

section \<open>Routing facts\<close>

lemmas route_defs = route_def method_matches_def path_matches_def

lemmas table_defs = api_routes_def api_old_routes_def worker_routes_def worker_main_routes_def

lemmas serve_defs = api_serve_def api_old_serve_def worker_serve_def worker_main_serve_def

lemmas fixture_defs = get_def post_def with_principal_def cold_def warm_def quiet_world_def
  unreachable_def reachable_def

lemmas reading_defs = JSON_def status_of_def message_of_def port_field_def

lemma api_route_healthz:
  "route api_routes ''GET'' ''/healthz'' = Handler Healthz"
  "route api_routes ''POST'' ''/healthz'' = Handler Healthz"
  "route api_old_routes ''GET'' ''/healthz'' = Handler Healthz"
  "route api_old_routes ''POST'' ''/healthz'' = Handler Healthz"
  by (simp_all add: route_defs table_defs)

lemma worker_route_healthz:
  "route worker_routes ''GET'' ''/healthz'' = Handler W_healthz"
  "route worker_routes ''POST'' ''/healthz'' = MethodNotAllowed"
  "route worker_main_routes ''GET'' ''/healthz'' = Handler W_healthz"
  "route worker_main_routes ''POST'' ''/healthz'' = MethodNotAllowed"
  by (simp_all add: route_defs table_defs)

lemma route_toggles:
  "route api_routes ''POST'' ''/healthz/fail'' = Handler Healthz_fail"
  "route api_routes ''POST'' ''/healthz/recover'' = Handler Healthz_recover"
  "route worker_routes ''POST'' ''/healthz/fail'' = Handler W_healthz_fail"
  "route worker_routes ''POST'' ''/healthz/recover'' = Handler W_healthz_recover"
  by (simp_all add: route_defs table_defs)

lemma route_probe:
  "route api_routes ''GET'' ''/probe'' = Handler Probe"
  "route worker_routes ''GET'' ''/probe'' = Handler W_probe"
  by (simp_all add: route_defs table_defs)

lemma route_protected:
  "route api_routes ''GET'' ''/protected'' = Handler Protected"
  by (simp add: route_defs table_defs)

lemma route_env:
  "route api_routes ''GET'' ''/env'' = Handler Env"
  by (simp add: route_defs table_defs)

section \<open>The health check\<close>

lemma api_healthz_reading:
  "code (fst (api_healthz port w r c)) = (if ready (fst c) \<and> \<not> forceFail (fst c) then 200 else 503)"
  "status_of (fst (api_healthz port w r c)) =
     Some (if \<not> ready (fst c) then ''not_ready''
           else if forceFail (fst c) then ''unhealthy'' else ''healthy'')"
  "message_of (fst (api_healthz port w r c)) =
     Some (if \<not> ready (fst c) then ''still starting up''
           else if forceFail (fst c) then ''health manually toggled to fail'' else [])"
  "snd (api_healthz port w r c) = c"
  by (simp_all add: api_healthz_def reading_defs)

lemma worker_healthz_reading:
  "code (fst (worker_healthz port w r c)) = (if ready (fst c) \<and> \<not> forceFail (fst c) then 200 else 503)"
  "status_of (fst (worker_healthz port w r c)) =
     Some (if \<not> ready (fst c) then ''not_ready''
           else if forceFail (fst c) then ''unhealthy'' else ''healthy'')"
  "message_of (fst (worker_healthz port w r c)) =
     Some (if \<not> ready (fst c) then ''still warming up''
           else if forceFail (fst c) then ''health manually toggled to fail'' else [])"
  "snd (worker_healthz port w r c) = c"
  by (simp_all add: worker_healthz_def reading_defs)

lemma serve_Handler:
  "route table (req_method r) (req_path r) = Handler h \<Longrightarrow>
     serve table handler port w r c = handler h port w r c"
  by (simp add: serve_def)

text \<open>
  C1. Every request that the multiplexer of either service hands to the /healthz handler
  is answered by three branches tried in order: readiness flag false, 503 with status
  not_ready; otherwise forced-failure flag true, 503 with status unhealthy; otherwise 200
  with status healthy. The state is left as it was.
\<close>

theorem healthz_three_branches:
  "(route api_routes (req_method r) (req_path r) = Handler Healthz \<longrightarrow>
      (code (fst (api_serve port w r c)), status_of (fst (api_serve port w r c))) =
        (if \<not> ready (fst c) then (503, Some ''not_ready'')
         else if forceFail (fst c) then (503, Some ''unhealthy'')
         else (200, Some ''healthy''))
      \<and> snd (api_serve port w r c) = c)
   \<and> (route worker_routes (req_method r) (req_path r) = Handler W_healthz \<longrightarrow>
      (code (fst (worker_serve port w r c)), status_of (fst (worker_serve port w r c))) =
        (if \<not> ready (fst c) then (503, Some ''not_ready'')
         else if forceFail (fst c) then (503, Some ''unhealthy'')
         else (200, Some ''healthy''))
      \<and> snd (worker_serve port w r c) = c)"
  by (simp add: serve_defs serve_Handler api_healthz_reading worker_healthz_reading)

theorem healthz_three_branches_witness:
  "route api_routes (req_method (get ''/healthz'')) (req_path (get ''/healthz'')) = Handler Healthz
   \<and> route worker_routes (req_method (get ''/healthz'')) (req_path (get ''/healthz''))
       = Handler W_healthz
   \<and> code (fst (api_serve ''3456'' quiet_world (get ''/healthz'') (cold, []))) = 503
   \<and> status_of (fst (api_serve ''3456'' quiet_world (get ''/healthz'') (cold, [])))
       = Some ''not_ready''
   \<and> code (fst (worker_serve ''9090'' quiet_world (get ''/healthz'') (cold, []))) = 503
   \<and> status_of (fst (worker_serve ''9090'' quiet_world (get ''/healthz'') (cold, [])))
       = Some ''not_ready''"
proof -
  have a: "route api_routes (req_method (get ''/healthz'')) (req_path (get ''/healthz''))
             = Handler Healthz"
    by (simp add: get_def api_route_healthz)
  have b: "route worker_routes (req_method (get ''/healthz'')) (req_path (get ''/healthz''))
             = Handler W_healthz"
    by (simp add: get_def worker_route_healthz)
  have c: "\<not> ready (fst (cold, []))"
    by (simp add: cold_def)
  from healthz_three_branches [of "get ''/healthz''" "''3456''" quiet_world "(cold, [])"] a c
  have "code (fst (api_serve ''3456'' quiet_world (get ''/healthz'') (cold, []))) = 503
        \<and> status_of (fst (api_serve ''3456'' quiet_world (get ''/healthz'') (cold, [])))
            = Some ''not_ready''"
    by simp
  moreover
  from healthz_three_branches [of "get ''/healthz''" "''9090''" quiet_world "(cold, [])"] b c
  have "code (fst (worker_serve ''9090'' quiet_world (get ''/healthz'') (cold, []))) = 503
        \<and> status_of (fst (worker_serve ''9090'' quiet_world (get ''/healthz'') (cold, [])))
            = Some ''not_ready''"
    by simp
  ultimately show ?thesis using a b by simp
qed

text \<open>
  C10. Within a service, the answer of the /healthz handler depends on the two flags
  only: two calls that see the same readiness flag and the same forced-failure flag give
  the same status code, the same status and the same message, whatever the requests, the
  clocks, the ports and the rest of the two states are.
\<close>

theorem healthz_deterministic:
  assumes "ready (fst c) = ready (fst c')" and "forceFail (fst c) = forceFail (fst c')"
  shows "code (fst (api_healthz port w r c)) = code (fst (api_healthz port' w' r' c'))
       \<and> status_of (fst (api_healthz port w r c)) = status_of (fst (api_healthz port' w' r' c'))
       \<and> message_of (fst (api_healthz port w r c)) = message_of (fst (api_healthz port' w' r' c'))
       \<and> code (fst (worker_healthz port w r c)) = code (fst (worker_healthz port' w' r' c'))
       \<and> status_of (fst (worker_healthz port w r c))
           = status_of (fst (worker_healthz port' w' r' c'))
       \<and> message_of (fst (worker_healthz port w r c))
           = message_of (fst (worker_healthz port' w' r' c'))"
  using assms by (simp add: api_healthz_reading worker_healthz_reading)

theorem healthz_deterministic_witness:
  "ready (fst (warm, [])) = ready (fst (warm\<lparr>inflight := 7\<rparr>, [Sleep 5000]))
   \<and> forceFail (fst (warm, [])) = forceFail (fst (warm\<lparr>inflight := 7\<rparr>, [Sleep 5000]))
   \<and> code (fst (api_healthz ''3456'' quiet_world (get ''/healthz'') (warm, [])))
       = code (fst (api_healthz ''80'' (quiet_world\<lparr>now := ''later''\<rparr>)
                  ((post ''/healthz'')\<lparr>req_body := ''x''\<rparr>) (warm\<lparr>inflight := 7\<rparr>, [Sleep 5000])))
   \<and> message_of (fst (worker_healthz ''9090'' quiet_world (get ''/healthz'') (warm, [])))
       = message_of (fst (worker_healthz ''80'' (quiet_world\<lparr>now := ''later''\<rparr>)
                  ((post ''/healthz'')\<lparr>req_body := ''x''\<rparr>) (warm\<lparr>inflight := 7\<rparr>, [Sleep 5000])))"
proof -
  have a: "ready (fst (warm, [])) = ready (fst (warm\<lparr>inflight := 7\<rparr>, [Sleep 5000]))"
    by simp
  have b: "forceFail (fst (warm, [])) = forceFail (fst (warm\<lparr>inflight := 7\<rparr>, [Sleep 5000]))"
    by simp
  from healthz_deterministic [OF a b] a b show ?thesis
    by blast
qed

section \<open>Which methods reach the health check\<close>

lemma serve_no_method:
  "route table (req_method r) (req_path r) = MethodNotAllowed \<Longrightarrow>
     serve table handler port w r c = (mux_error 405 (''Method Not Allowed'' @ [CHR 0x0A]), c)"
  by (simp add: serve_def)

text \<open>
  C2, as the code has it. The api registers /healthz for GET and for POST, and both reach
  its health handler. The worker registers /healthz for GET only: a GET reaches its
  health handler, and a POST is answered by the multiplexer itself with 405, the state
  untouched. The older api and the older worker \<^verbatim>\<open>main\<close> route the same way.
\<close>

theorem healthz_methods:
  assumes "req_path r = ''/healthz''"
  shows "(req_method r = ''GET'' \<or> req_method r = ''POST'' \<longrightarrow>
            api_serve port w r c = api_healthz port w r c
            \<and> api_old_serve port w r c = api_healthz port w r c)
       \<and> (req_method r = ''GET'' \<longrightarrow>
            worker_serve port w r c = worker_healthz port w r c
            \<and> worker_main_serve port w r c = worker_healthz port w r c)
       \<and> (req_method r = ''POST'' \<longrightarrow>
            worker_serve port w r c = (mux_error 405 (''Method Not Allowed'' @ [CHR 0x0A]), c)
            \<and> worker_main_serve port w r c
                = (mux_error 405 (''Method Not Allowed'' @ [CHR 0x0A]), c))"
proof (intro conjI impI)
  assume "req_method r = ''GET'' \<or> req_method r = ''POST''"
  then have "route api_routes (req_method r) (req_path r) = Handler Healthz"
    and "route api_old_routes (req_method r) (req_path r) = Handler Healthz"
    using assms api_route_healthz by auto
  then show "api_serve port w r c = api_healthz port w r c"
    and "api_old_serve port w r c = api_healthz port w r c"
    by (simp_all add: serve_defs serve_Handler)
next
  assume "req_method r = ''GET''"
  then have "route worker_routes (req_method r) (req_path r) = Handler W_healthz"
    and "route worker_main_routes (req_method r) (req_path r) = Handler W_healthz"
    using assms worker_route_healthz by auto
  then show "worker_serve port w r c = worker_healthz port w r c"
    and "worker_main_serve port w r c = worker_healthz port w r c"
    by (simp_all add: serve_defs serve_Handler)
next
  assume "req_method r = ''POST''"
  then have "route worker_routes (req_method r) (req_path r) = MethodNotAllowed"
    and "route worker_main_routes (req_method r) (req_path r) = MethodNotAllowed"
    using assms worker_route_healthz by auto
  then show "worker_serve port w r c = (mux_error 405 (''Method Not Allowed'' @ [CHR 0x0A]), c)"
    and "worker_main_serve port w r c = (mux_error 405 (''Method Not Allowed'' @ [CHR 0x0A]), c)"
    by (simp_all add: serve_defs serve_no_method)
qed

theorem healthz_methods_witness:
  "req_path (post ''/healthz'') = ''/healthz'' \<and> req_method (post ''/healthz'') = ''POST''
   \<and> status_of (fst (api_serve ''3456'' quiet_world (post ''/healthz'') (warm, [])))
       = Some ''healthy''
   \<and> code (fst (worker_serve ''9090'' quiet_world (post ''/healthz'') (warm, []))) = 405"
proof -
  have p: "req_path (post ''/healthz'') = ''/healthz''"
    and m: "req_method (post ''/healthz'') = ''POST''"
    by (simp_all add: post_def)
  from healthz_methods [OF p, of "''3456''" quiet_world "(warm, [])"] m
  have "api_serve ''3456'' quiet_world (post ''/healthz'') (warm, [])
          = api_healthz ''3456'' quiet_world (post ''/healthz'') (warm, [])"
    by simp
  moreover
  from healthz_methods [OF p, of "''9090''" quiet_world "(warm, [])"] m
  have "worker_serve ''9090'' quiet_world (post ''/healthz'') (warm, [])
          = (mux_error 405 (''Method Not Allowed'' @ [CHR 0x0A]), (warm, []))"
    by simp
  ultimately show ?thesis
    using p m by (simp add: api_healthz_reading warm_def mux_error_def)
qed

text \<open>
  C2 as stated fails on the worker: a POST to /healthz is not handed to the health
  handler there; the multiplexer rejects it with 405 Method Not Allowed.
\<close>

theorem worker_post_healthz_rejected:
  "route worker_routes (req_method (post ''/healthz'')) (req_path (post ''/healthz''))
     = MethodNotAllowed
   \<and> route worker_routes (req_method (post ''/healthz'')) (req_path (post ''/healthz''))
     \<noteq> Handler W_healthz
   \<and> code (fst (worker_serve ''9090'' quiet_world (post ''/healthz'') (warm, []))) = 405
   \<and> payload (fst (worker_serve ''9090'' quiet_world (post ''/healthz'') (warm, [])))
     = Plain (''Method Not Allowed'' @ [CHR 0x0A])"
  by (simp add: post_def worker_route_healthz serve_defs serve_def mux_error_def)

section \<open>Forcing the health check to fail\<close>

lemma api_toggle_reading:
  "fst (snd (api_healthz_fail port w r c)) = (fst c)\<lparr>forceFail := True\<rparr>"
  "fst (snd (api_healthz_recover port w r c)) = (fst c)\<lparr>forceFail := False\<rparr>"
  "code (fst (api_healthz_fail port w r c)) = 200"
  "code (fst (api_healthz_recover port w r c)) = 200"
  "status_of (fst (api_healthz_fail port w r c)) = Some ''ok''"
  "status_of (fst (api_healthz_recover port w r c)) = Some ''ok''"
  by (simp_all add: api_healthz_fail_def api_healthz_recover_def forceFail_Store_def
      reading_defs Let_def)

lemma worker_toggle_reading:
  "fst (snd (worker_healthz_fail port w r c)) = (fst c)\<lparr>forceFail := True\<rparr>"
  "fst (snd (worker_healthz_recover port w r c)) = (fst c)\<lparr>forceFail := False\<rparr>"
  "code (fst (worker_healthz_fail port w r c)) = 200"
  "code (fst (worker_healthz_recover port w r c)) = 200"
  "status_of (fst (worker_healthz_fail port w r c)) = Some ''ok''"
  "status_of (fst (worker_healthz_recover port w r c)) = Some ''ok''"
  by (simp_all add: worker_healthz_fail_def worker_healthz_recover_def forceFail_Store_def
      reading_defs Let_def)

lemma serve_toggles:
  assumes "req_method r = ''POST''"
  shows "req_path r = ''/healthz/fail'' \<Longrightarrow> api_serve port w r c = api_healthz_fail port w r c"
    and "req_path r = ''/healthz/recover'' \<Longrightarrow>
           api_serve port w r c = api_healthz_recover port w r c"
    and "req_path r = ''/healthz/fail'' \<Longrightarrow>
           worker_serve port w r c = worker_healthz_fail port w r c"
    and "req_path r = ''/healthz/recover'' \<Longrightarrow>
           worker_serve port w r c = worker_healthz_recover port w r c"
  using assms by (simp_all add: serve_defs serve_def route_toggles)

text \<open>
  C5. In either service and from every state, POST /healthz/fail sets the forced-failure
  flag and POST /healthz/recover clears it, each answering 200 with status ok. Failing and
  then recovering leaves the flag false whatever it was; failing twice leaves the state
  that failing once leaves, and so does recovering twice.
\<close>

theorem forced_failure_toggle:
  assumes "req_method f = ''POST''" and "req_path f = ''/healthz/fail''"
    and "req_method g = ''POST''" and "req_path g = ''/healthz/recover''"
  shows "forceFail (fst (snd (api_serve port w f c)))
       \<and> \<not> forceFail (fst (snd (api_serve port w g c)))
       \<and> code (fst (api_serve port w f c)) = 200
       \<and> status_of (fst (api_serve port w f c)) = Some ''ok''
       \<and> code (fst (api_serve port w g c)) = 200
       \<and> status_of (fst (api_serve port w g c)) = Some ''ok''
       \<and> \<not> forceFail (fst (snd (api_serve port w' g (snd (api_serve port w f c)))))
       \<and> fst (snd (api_serve port w' f (snd (api_serve port w f c))))
           = fst (snd (api_serve port w f c))
       \<and> fst (snd (api_serve port w' g (snd (api_serve port w g c))))
           = fst (snd (api_serve port w g c))
       \<and> forceFail (fst (snd (worker_serve port w f c)))
       \<and> \<not> forceFail (fst (snd (worker_serve port w g c)))
       \<and> code (fst (worker_serve port w f c)) = 200
       \<and> status_of (fst (worker_serve port w f c)) = Some ''ok''
       \<and> code (fst (worker_serve port w g c)) = 200
       \<and> status_of (fst (worker_serve port w g c)) = Some ''ok''
       \<and> \<not> forceFail (fst (snd (worker_serve port w' g (snd (worker_serve port w f c)))))
       \<and> fst (snd (worker_serve port w' f (snd (worker_serve port w f c))))
           = fst (snd (worker_serve port w f c))
       \<and> fst (snd (worker_serve port w' g (snd (worker_serve port w g c))))
           = fst (snd (worker_serve port w g c))"
  using assms by (simp add: serve_toggles api_toggle_reading worker_toggle_reading)

theorem forced_failure_toggle_witness:
  "req_method (post ''/healthz/fail'') = ''POST''
   \<and> req_path (post ''/healthz/fail'') = ''/healthz/fail''
   \<and> req_method (post ''/healthz/recover'') = ''POST''
   \<and> req_path (post ''/healthz/recover'') = ''/healthz/recover''
   \<and> forceFail (fst (snd (api_serve ''3456'' quiet_world (post ''/healthz/fail'') (warm, []))))
   \<and> \<not> forceFail (fst (snd (worker_serve ''9090'' quiet_world (post ''/healthz/recover'')
         (snd (worker_serve ''9090'' quiet_world (post ''/healthz/fail'') (warm, []))))))"
proof -
  have h: "req_method (post ''/healthz/fail'') = ''POST''"
    "req_path (post ''/healthz/fail'') = ''/healthz/fail''"
    "req_method (post ''/healthz/recover'') = ''POST''"
    "req_path (post ''/healthz/recover'') = ''/healthz/recover''"
    by (simp_all add: post_def)
  from forced_failure_toggle [OF h, of "''3456''" quiet_world "(warm, [])" quiet_world]
    forced_failure_toggle [OF h, of "''9090''" quiet_world "(warm, [])" quiet_world] h
  show ?thesis by blast
qed

section \<open>The probe of the peer\<close>

lemma api_probe_reading:
  "code (fst (api_probe port w r c)) = 200"
  "status_of (fst (api_probe port w r c)) =
     Some (if os_Getenv (environ w) ''WORKER_URL'' = [] then ''skipped''
           else case client_Get w (os_Getenv (environ w) ''WORKER_URL'' @ ''/healthz'') of
                  Get_error err \<Rightarrow> ''isolated''
                | Get_ok sc \<Rightarrow> ''NOT_ISOLATED'')"
  "snd (api_probe port w r c) = c"
  by (simp_all add: api_probe_def reading_defs Let_def split: get_result.split)

lemma worker_probe_reading:
  "code (fst (worker_probe port w r c)) = 200"
  "status_of (fst (worker_probe port w r c)) =
     Some (if os_Getenv (environ w) ''API_URL'' = [] then ''skipped''
           else case client_Get w (os_Getenv (environ w) ''API_URL'' @ ''/healthz'') of
                  Get_error err \<Rightarrow> ''isolated''
                | Get_ok sc \<Rightarrow> ''NOT_ISOLATED'')"
  "snd (worker_probe port w r c) = c"
  by (simp_all add: worker_probe_def reading_defs Let_def split: get_result.split)

text \<open>
  C7. GET /probe on either service: with the peer's URL variable (\<^verbatim>\<open>WORKER_URL\<close> in the
  api, \<^verbatim>\<open>API_URL\<close> in the worker) empty the status is skipped; when the call to that URL
  followed by /healthz returns an error the status is isolated; when the call returns a
  response, whatever its status code, the status is NOT_ISOLATED. The probe itself
  answers 200 in all three cases.
\<close>

theorem probe_reports:
  assumes "req_method r = ''GET''" and "req_path r = ''/probe''"
  shows "code (fst (api_serve port w r c)) = 200
       \<and> status_of (fst (api_serve port w r c)) =
           Some (if os_Getenv (environ w) ''WORKER_URL'' = [] then ''skipped''
                 else case client_Get w (os_Getenv (environ w) ''WORKER_URL'' @ ''/healthz'') of
                        Get_error err \<Rightarrow> ''isolated''
                      | Get_ok sc \<Rightarrow> ''NOT_ISOLATED'')
       \<and> code (fst (worker_serve port w r c)) = 200
       \<and> status_of (fst (worker_serve port w r c)) =
           Some (if os_Getenv (environ w) ''API_URL'' = [] then ''skipped''
                 else case client_Get w (os_Getenv (environ w) ''API_URL'' @ ''/healthz'') of
                        Get_error err \<Rightarrow> ''isolated''
                      | Get_ok sc \<Rightarrow> ''NOT_ISOLATED'')"
proof -
  have "api_serve port w r c = api_probe port w r c"
    and "worker_serve port w r c = worker_probe port w r c"
    using assms by (simp_all add: serve_defs serve_def route_probe)
  then show ?thesis
    by (simp only: api_probe_reading worker_probe_reading simp_thms)
qed

theorem probe_reports_witness:
  "req_method (get ''/probe'') = ''GET'' \<and> req_path (get ''/probe'') = ''/probe''
   \<and> status_of (fst (api_serve ''3456'' quiet_world (get ''/probe'') (warm, []))) = Some ''skipped''
   \<and> status_of (fst (api_serve ''3456''
        (quiet_world\<lparr>environ := [''WORKER_URL=http://worker:9090'']\<rparr>) (get ''/probe'') (warm, [])))
       = Some ''isolated''
   \<and> status_of (fst (worker_serve ''9090''
        (quiet_world\<lparr>environ := [''API_URL=http://api:3456''], client_Get := reachable\<rparr>)
        (get ''/probe'') (warm, [])))
       = Some ''NOT_ISOLATED''
   \<and> code (fst (worker_serve ''9090''
        (quiet_world\<lparr>environ := [''API_URL=http://api:3456''], client_Get := reachable\<rparr>)
        (get ''/probe'') (warm, []))) = 200"
proof -
  have h: "req_method (get ''/probe'') = ''GET''" "req_path (get ''/probe'') = ''/probe''"
    by (simp_all add: get_def)
  have e: "os_Getenv (environ quiet_world) ''WORKER_URL'' = []"
    "os_Getenv [''WORKER_URL=http://worker:9090''] ''WORKER_URL'' = ''http://worker:9090''"
    "os_Getenv [''API_URL=http://api:3456''] ''API_URL'' = ''http://api:3456''"
    by (simp_all add: quiet_world_def strings_Cut_def)
  from probe_reports [OF h, of "''3456''" quiet_world "(warm, [])"]
    probe_reports [OF h, of "''3456''"
      "quiet_world\<lparr>environ := [''WORKER_URL=http://worker:9090'']\<rparr>" "(warm, [])"]
    probe_reports [OF h, of "''9090''"
      "quiet_world\<lparr>environ := [''API_URL=http://api:3456''], client_Get := reachable\<rparr>"
      "(warm, [])"]
  show ?thesis
    using h e by (simp add: quiet_world_def unreachable_def reachable_def)
qed

section \<open>Shutdown\<close>

text \<open>The api's loop sleeps once for every leading observation of a positive counter
  with the deadline not fired, and then exits on what the next observation shows.\<close>

lemma api_shutdown_shape:
  "api_shutdown obs =
     replicate (length (takeWhile (\<lambda>(n, fired). 0 <s n \<and> \<not> fired) obs)) (Sleep 100)
     @ (case dropWhile (\<lambda>(n, fired). 0 <s n \<and> \<not> fired) obs of
          [] \<Rightarrow> []
        | (n, fired) # rest \<Rightarrow> if 0 <s n then [Exit 1] else [Exit 0])"
  by (induction obs rule: api_shutdown.induct) auto

text \<open>
  C3, as the code has it. After a signal the worker sleeps a fixed two seconds and exits
  with 0. The api does not sleep a fixed time: it polls the in-flight counter, sleeping
  100 ms after each poll that finds it positive with the deadline not fired; it exits
  with 0 at the first poll that finds the counter not positive (at once, without any
  sleep, when that is the first poll) and with 1 at a poll that finds it positive with
  the deadline fired.
\<close>

theorem shutdown_traces:
  "worker_shutdown = [Sleep 2000, Exit 0]
   \<and> api_shutdown obs =
       replicate (length (takeWhile (\<lambda>(n, fired). 0 <s n \<and> \<not> fired) obs)) (Sleep 100)
       @ (case dropWhile (\<lambda>(n, fired). 0 <s n \<and> \<not> fired) obs of
            [] \<Rightarrow> []
          | (n, fired) # rest \<Rightarrow> if 0 <s n then [Exit 1] else [Exit 0])
   \<and> (\<forall>fired rest n. \<not> 0 <s n \<longrightarrow> api_shutdown ((n, fired) # rest) = [Exit 0])"
  by (simp add: worker_shutdown_def api_shutdown_shape [symmetric])

theorem shutdown_traces_witness:
  "\<not> 0 <s (0 :: 64 word)
   \<and> api_shutdown [(0, False)] = [Exit 0]
   \<and> api_shutdown [(2, False), (1, False), (0, True)] = [Sleep 100, Sleep 100, Exit 0]
   \<and> api_shutdown [(1, False), (1, True)] = [Sleep 100, Exit 1]"
proof -
  have z: "\<not> 0 <s (0 :: 64 word)" by simp
  from shutdown_traces [of "[(0, False)]"] z have "api_shutdown [(0, False)] = [Exit 0]"
    by blast
  moreover
  from shutdown_traces [of "[(2, False), (1, False), (0, True)]"]
  have "api_shutdown [(2, False), (1, False), (0, True)] = [Sleep 100, Sleep 100, Exit 0]"
    by (simp add: word_sless_alt)
  moreover
  from shutdown_traces [of "[(1, False), (1, True)]"]
  have "api_shutdown [(1, False), (1, True)] = [Sleep 100, Exit 1]"
    by (simp add: word_sless_alt)
  ultimately show ?thesis using z by simp
qed

text \<open>
  C3 as stated fails on the api: with no request in flight when the signal arrives it
  exits without sleeping at all, and with one request in flight that ends during the
  first wait it sleeps 100 ms; the time slept is not fixed.
\<close>

theorem api_shutdown_not_fixed:
  "api_shutdown [(0, False)] = [Exit 0]
   \<and> api_shutdown [(1, False), (0, False)] = [Sleep 100, Exit 0]
   \<and> api_shutdown [(1, False), (1, False), (0, False)] = [Sleep 100, Sleep 100, Exit 0]"
  by (simp add: word_sless_alt)

section \<open>The in-flight counter\<close>

lemma inflight_adds_append [simp]:
  "inflight_adds (xs @ ys) = inflight_adds xs @ inflight_adds ys"
  by (induction xs rule: inflight_adds.induct) simp_all

lemma ready_stores_append [simp]:
  "ready_stores (xs @ ys) = ready_stores xs @ ready_stores ys"
  by (induction xs rule: ready_stores.induct) simp_all

lemmas atomic_defs = ready_Store_def forceFail_Store_def inflight_Add_def time_Sleep_def

lemmas api_handler_defs = api_root_def api_healthz_def api_healthz_fail_def
  api_healthz_recover_def api_slow_def api_protected_def api_env_def api_probe_def

lemmas worker_handler_defs = worker_root_def worker_healthz_def worker_healthz_fail_def
  worker_healthz_recover_def worker_probe_def

text \<open>What each handler of the api appends to the trace.\<close>

lemma api_handler_trace:
  "snd (snd (api_handler h port w r c)) = snd c @
     (case h of
        Root \<Rightarrow> [Add_inflight 1, Add_inflight (- 1)]
      | Slow \<Rightarrow> [Add_inflight 1, Sleep 5000, Add_inflight (- 1)]
      | Protected \<Rightarrow> [Add_inflight 1, Add_inflight (- 1)]
      | Healthz_fail \<Rightarrow> [Store_forceFail True]
      | Healthz_recover \<Rightarrow> [Store_forceFail False]
      | _ \<Rightarrow> [])"
  by (cases h)
    (simp_all add: api_handler_defs atomic_defs Let_def split: sum.split get_result.split)

lemma worker_handler_trace:
  "snd (snd (worker_handler h port w r c)) = snd c @
     (case h of
        W_healthz_fail \<Rightarrow> [Store_forceFail True]
      | W_healthz_recover \<Rightarrow> [Store_forceFail False]
      | _ \<Rightarrow> [])"
  by (cases h)
    (simp_all add: worker_handler_defs atomic_defs Let_def split: sum.split get_result.split)

lemma api_handler_state:
  "fst (snd (api_handler h port w r c)) =
     (case h of
        Healthz_fail \<Rightarrow> (fst c)\<lparr>forceFail := True\<rparr>
      | Healthz_recover \<Rightarrow> (fst c)\<lparr>forceFail := False\<rparr>
      | _ \<Rightarrow> fst c)"
  by (cases h)
    (simp_all add: api_handler_defs atomic_defs Let_def split: sum.split get_result.split)

lemma worker_handler_state:
  "fst (snd (worker_handler h port w r c)) =
     (case h of
        W_healthz_fail \<Rightarrow> (fst c)\<lparr>forceFail := True\<rparr>
      | W_healthz_recover \<Rightarrow> (fst c)\<lparr>forceFail := False\<rparr>
      | _ \<Rightarrow> fst c)"
  by (cases h)
    (simp_all add: worker_handler_defs atomic_defs Let_def split: sum.split get_result.split)

text \<open>
  C4, as the code has it. In the api of svc/api/main.go three handlers, those of GET /,
  GET /slow and GET /protected, add 1 to the in-flight counter as their first effect and
  add -1 as their last; the older api of src/unnamed/part_001 has the first two of them
  only. Every other handler, and every handler of the worker, makes no addition to the
  counter. Every handler leaves the counter at the value it found, and the message of
  GET / shows the counter after the handler's own increment.
\<close>

theorem inflight_handlers:
  "inflight_adds (snd (snd (api_handler h port w r c))) =
     inflight_adds (snd c) @ (if h = Root \<or> h = Slow \<or> h = Protected then [1, - 1] else [])
   \<and> (h = Root \<or> h = Slow \<or> h = Protected \<longrightarrow>
        take 1 (drop (length (snd c)) (snd (snd (api_handler h port w r c)))) = [Add_inflight 1]
        \<and> last (snd (snd (api_handler h port w r c))) = Add_inflight (- 1))
   \<and> inflight (fst (snd (api_handler h port w r c))) = inflight (fst c)
   \<and> message_of (fst (api_handler Root port w r c)) =
        Some (''request #'' @ show_nat (rand w mod 10000) @ '' | in-flight: ''
              @ show_int (sint (inflight (fst c) + 1)))
   \<and> filter (\<lambda>h. h = Root \<or> h = Slow \<or> h = Protected) (map (\<lambda>(m, p, h). h) api_routes)
        = [Root, Slow, Protected]
   \<and> filter (\<lambda>h. h = Root \<or> h = Slow \<or> h = Protected) (map (\<lambda>(m, p, h). h) api_old_routes)
        = [Root, Slow]
   \<and> inflight_adds (snd (snd (worker_handler h' port w r c))) = inflight_adds (snd c)
   \<and> inflight (fst (snd (worker_handler h' port w r c))) = inflight (fst c)"
proof (intro conjI)
  show "inflight_adds (snd (snd (api_handler h port w r c))) =
     inflight_adds (snd c) @ (if h = Root \<or> h = Slow \<or> h = Protected then [1, - 1] else [])"
    using api_handler_trace [of h port w r c] by (cases h) simp_all
  show "h = Root \<or> h = Slow \<or> h = Protected \<longrightarrow>
        take 1 (drop (length (snd c)) (snd (snd (api_handler h port w r c)))) = [Add_inflight 1]
        \<and> last (snd (snd (api_handler h port w r c))) = Add_inflight (- 1)"
    using api_handler_trace [of h port w r c] by (cases h) simp_all
  show "inflight (fst (snd (api_handler h port w r c))) = inflight (fst c)"
    using api_handler_state [of h port w r c] by (cases h) simp_all
  show "message_of (fst (api_handler Root port w r c)) =
        Some (''request #'' @ show_nat (rand w mod 10000) @ '' | in-flight: ''
              @ show_int (sint (inflight (fst c) + 1)))"
    by (simp add: api_root_def inflight_Add_def reading_defs Let_def)
  show "filter (\<lambda>h. h = Root \<or> h = Slow \<or> h = Protected) (map (\<lambda>(m, p, h). h) api_routes)
        = [Root, Slow, Protected]"
    by (simp add: api_routes_def)
  show "filter (\<lambda>h. h = Root \<or> h = Slow \<or> h = Protected) (map (\<lambda>(m, p, h). h) api_old_routes)
        = [Root, Slow]"
    by (simp add: api_old_routes_def)
  show "inflight_adds (snd (snd (worker_handler h' port w r c))) = inflight_adds (snd c)"
    using worker_handler_trace [of h' port w r c] by (cases h') simp_all
  show "inflight (fst (snd (worker_handler h' port w r c))) = inflight (fst c)"
    using worker_handler_state [of h' port w r c] by (cases h') simp_all
qed

theorem inflight_handlers_witness:
  "(Slow = Root \<or> Slow = Slow \<or> Slow = Protected)
   \<and> inflight_adds (snd (snd (api_handler Slow ''3456'' quiet_world (get ''/slow'') (warm, []))))
       = [1, - 1]
   \<and> take 1 (snd (snd (api_handler Slow ''3456'' quiet_world (get ''/slow'') (warm, []))))
       = [Add_inflight 1]
   \<and> last (snd (snd (api_handler Slow ''3456'' quiet_world (get ''/slow'') (warm, []))))
       = Add_inflight (- 1)
   \<and> inflight (fst (snd (api_handler Slow ''3456'' quiet_world (get ''/slow'') (warm, [])))) = 0
   \<and> message_of (fst (api_handler Root ''3456'' quiet_world (get ''/'') (warm, [])))
       = Some ''request #42 | in-flight: 1''"
proof -
  have h: "Slow = Root \<or> Slow = Slow \<or> Slow = Protected"
    by simp
  have "message_of (fst (api_handler Root ''3456'' quiet_world (get ''/'') (warm, [])))
       = Some ''request #42 | in-flight: 1''"
    using inflight_handlers [of Root "''3456''" quiet_world "get ''/''" "(warm, [])"]
    by (simp add: quiet_world_def warm_def show_int_def show_nat.simps)
  moreover
  have "inflight_adds (snd (snd (api_handler Slow ''3456'' quiet_world (get ''/slow'') (warm, []))))
       = [1, - 1]
     \<and> take 1 (snd (snd (api_handler Slow ''3456'' quiet_world (get ''/slow'') (warm, []))))
       = [Add_inflight 1]
     \<and> last (snd (snd (api_handler Slow ''3456'' quiet_world (get ''/slow'') (warm, []))))
       = Add_inflight (- 1)
     \<and> inflight (fst (snd (api_handler Slow ''3456'' quiet_world (get ''/slow'') (warm, [])))) = 0"
    using inflight_handlers [of Slow "''3456''" quiet_world "get ''/slow''" "(warm, [])"] h
    by (simp add: warm_def)
  ultimately show ?thesis using h by blast
qed

text \<open>
  C4 as stated fails on svc/api/main.go: not two but three of its registered handlers
  add to the counter; GET /protected does, beside GET / and GET /slow.
\<close>

theorem protected_counts_in_flight:
  "inflight_adds (snd (snd (api_serve ''3456'' quiet_world (get ''/'') (warm, [])))) = [1, - 1]
   \<and> inflight_adds (snd (snd (api_serve ''3456'' quiet_world (get ''/slow'') (warm, []))))
       = [1, - 1]
   \<and> inflight_adds (snd (snd (api_serve ''3456'' quiet_world (get ''/protected'') (warm, []))))
       = [1, - 1]
   \<and> inflight_adds (snd (snd (api_serve ''3456'' quiet_world (with_principal ''{}'') (warm, []))))
       = [1, - 1]"
proof -
  have "route api_routes ''GET'' ''/'' = Handler Root"
    and "route api_routes ''GET'' ''/slow'' = Handler Slow"
    and "route api_routes ''GET'' ''/protected'' = Handler Protected"
    by (simp_all add: route_defs table_defs)
  then show ?thesis
    using api_handler_trace [of Root "''3456''" quiet_world "get ''/''" "(warm, [])"]
      api_handler_trace [of Slow "''3456''" quiet_world "get ''/slow''" "(warm, [])"]
      api_handler_trace [of Protected "''3456''" quiet_world "get ''/protected''" "(warm, [])"]
      api_handler_trace [of Protected "''3456''" quiet_world "with_principal ''{}''" "(warm, [])"]
    by (simp add: serve_defs serve_def get_def with_principal_def)
qed

section \<open>The readiness flag\<close>

lemma api_serve_ready:
  "ready (fst (snd (api_serve port w r c))) = ready (fst c)"
  "ready_stores (snd (snd (api_serve port w r c))) = ready_stores (snd c)"
proof -
  have a: "ready (fst (snd (api_handler h port w r c))) = ready (fst c)" for h
    using api_handler_state [of h port w r c] by (cases h) simp_all
  have b: "ready_stores (snd (snd (api_handler h port w r c))) = ready_stores (snd c)" for h
    using api_handler_trace [of h port w r c] by (cases h) simp_all
  show "ready (fst (snd (api_serve port w r c))) = ready (fst c)"
    by (simp add: api_serve_def serve_def a split: route_result.split)
  show "ready_stores (snd (snd (api_serve port w r c))) = ready_stores (snd c)"
    by (simp add: api_serve_def serve_def b split: route_result.split)
qed

lemma worker_serve_ready:
  "ready (fst (snd (worker_serve port w r c))) = ready (fst c)"
  "ready_stores (snd (snd (worker_serve port w r c))) = ready_stores (snd c)"
proof -
  have a: "ready (fst (snd (worker_handler h port w r c))) = ready (fst c)" for h
    using worker_handler_state [of h port w r c] by (cases h) simp_all
  have b: "ready_stores (snd (snd (worker_handler h port w r c))) = ready_stores (snd c)" for h
    using worker_handler_trace [of h port w r c] by (cases h) simp_all
  show "ready (fst (snd (worker_serve port w r c))) = ready (fst c)"
    by (simp add: worker_serve_def serve_def a split: route_result.split)
  show "ready_stores (snd (snd (worker_serve port w r c))) = ready_stores (snd c)"
    by (simp add: worker_serve_def serve_def b split: route_result.split)
qed

lemma startup_effects:
  "api_startup c = ((fst c)\<lparr>ready := True\<rparr>, snd c @ [Sleep 3000, Store_ready True])"
  "worker_startup c = ((fst c)\<lparr>ready := True\<rparr>, snd c @ [Sleep 2000, Store_ready True])"
  by (simp_all add: api_startup_def worker_startup_def atomic_defs)

lemma api_exec_snoc:
  "api_exec port (evs @ [e]) = api_step port (api_exec port evs) e"
  by (simp add: api_exec_def)

lemma worker_exec_snoc:
  "worker_exec port (evs @ [e]) = worker_step port (worker_exec port evs) e"
  by (simp add: worker_exec_def)

text \<open>In every state a run reaches, the flag is true exactly when the startup goroutine
  has stored, and the trace holds that one store and no other.\<close>

lemma api_ready_invariant:
  "ready (fst (fst (api_exec port evs))) = (\<not> snd (api_exec port evs))
   \<and> ready_stores (snd (fst (api_exec port evs)))
       = (if snd (api_exec port evs) then [] else [True])"
proof (induction evs rule: rev_induct)
  case Nil
  show ?case by (simp add: api_exec_def init_def)
next
  case (snoc e evs)
  obtain c pending where s: "api_exec port evs = (c, pending)"
    by (cases "api_exec port evs")
  show ?case
  proof (cases e)
    case Startup
    with snoc s show ?thesis
      by (simp add: api_exec_snoc startup_effects)
  next
    case (Request w r)
    with snoc s show ?thesis
      by (simp add: api_exec_snoc api_serve_ready)
  qed
qed

lemma worker_ready_invariant:
  "ready (fst (fst (worker_exec port evs))) = (\<not> snd (worker_exec port evs))
   \<and> ready_stores (snd (fst (worker_exec port evs)))
       = (if snd (worker_exec port evs) then [] else [True])"
proof (induction evs rule: rev_induct)
  case Nil
  show ?case by (simp add: worker_exec_def init_def)
next
  case (snoc e evs)
  obtain c pending where s: "worker_exec port evs = (c, pending)"
    by (cases "worker_exec port evs")
  show ?case
  proof (cases e)
    case Startup
    with snoc s show ?thesis
      by (simp add: worker_exec_snoc startup_effects)
  next
    case (Request w r)
    with snoc s show ?thesis
      by (simp add: worker_exec_snoc worker_serve_ready)
  qed
qed

lemma api_ready_stays:
  "ready (fst (fst (api_exec port evs))) \<Longrightarrow> ready (fst (fst (api_exec port (evs @ evs'))))"
proof (induction evs' rule: rev_induct)
  case Nil
  then show ?case by simp
next
  case (snoc e evs')
  then have r: "ready (fst (fst (api_exec port (evs @ evs'))))"
    by simp
  obtain c pending where s: "api_exec port (evs @ evs') = (c, pending)"
    by (cases "api_exec port (evs @ evs')")
  have "ready (fst (fst (api_step port (c, pending) e)))"
    using r s by (cases e) (simp_all add: startup_effects api_serve_ready)
  then show ?case
    using s api_exec_snoc [of port "evs @ evs'" e] by simp
qed

lemma worker_ready_stays:
  "ready (fst (fst (worker_exec port evs))) \<Longrightarrow>
     ready (fst (fst (worker_exec port (evs @ evs'))))"
proof (induction evs' rule: rev_induct)
  case Nil
  then show ?case by simp
next
  case (snoc e evs')
  then have r: "ready (fst (fst (worker_exec port (evs @ evs'))))"
    by simp
  obtain c pending where s: "worker_exec port (evs @ evs') = (c, pending)"
    by (cases "worker_exec port (evs @ evs')")
  have "ready (fst (fst (worker_step port (c, pending) e)))"
    using r s by (cases e) (simp_all add: startup_effects worker_serve_ready)
  then show ?case
    using s worker_exec_snoc [of port "evs @ evs'" e] by simp
qed

text \<open>The flag is true exactly in the states that come after the startup goroutine has
  run.\<close>

lemma api_ready_iff:
  "ready (fst (fst (api_exec port evs))) = (Startup \<in> set evs)"
proof (induction evs rule: rev_induct)
  case Nil
  show ?case by (simp add: api_exec_def init_def)
next
  case (snoc e evs)
  obtain c pending where s: "api_exec port evs = (c, pending)"
    by (cases "api_exec port evs")
  have i: "ready (fst c) = (\<not> pending)"
    using api_ready_invariant [of port evs] s by simp
  show ?case
    using snoc s i by (cases e) (simp_all add: api_exec_snoc startup_effects api_serve_ready)
qed

lemma worker_ready_iff:
  "ready (fst (fst (worker_exec port evs))) = (Startup \<in> set evs)"
proof (induction evs rule: rev_induct)
  case Nil
  show ?case by (simp add: worker_exec_def init_def)
next
  case (snoc e evs)
  obtain c pending where s: "worker_exec port evs = (c, pending)"
    by (cases "worker_exec port evs")
  have i: "ready (fst c) = (\<not> pending)"
    using worker_ready_invariant [of port evs] s by simp
  show ?case
    using snoc s i
    by (cases e) (simp_all add: worker_exec_snoc startup_effects worker_serve_ready)
qed

text \<open>
  C6. In both services the only store to the readiness flag is the one of the startup
  goroutine, which stores true right after its sleep (3 s in the api, 2 s in the worker):
  no request changes the flag or adds a store to the trace. In a run of either service
  the flag is false before the startup goroutine has run and true in every state after
  it, and the trace then holds exactly one store, of true; so once the flag is true it is
  true in every later state of the run, and the /healthz handler does not answer
  not_ready there.
\<close>

theorem readiness_set_once:
  "api_startup c = ((fst c)\<lparr>ready := True\<rparr>, snd c @ [Sleep 3000, Store_ready True])
   \<and> worker_startup c = ((fst c)\<lparr>ready := True\<rparr>, snd c @ [Sleep 2000, Store_ready True])
   \<and> ready (fst (snd (api_serve port w r c))) = ready (fst c)
   \<and> ready_stores (snd (snd (api_serve port w r c))) = ready_stores (snd c)
   \<and> ready (fst (snd (worker_serve port w r c))) = ready (fst c)
   \<and> ready_stores (snd (snd (worker_serve port w r c))) = ready_stores (snd c)
   \<and> ready (fst (fst (api_exec port evs))) = (Startup \<in> set evs)
   \<and> ready (fst (fst (worker_exec port evs))) = (Startup \<in> set evs)
   \<and> ready_stores (snd (fst (api_exec port evs))) = (if Startup \<in> set evs then [True] else [])
   \<and> ready_stores (snd (fst (worker_exec port evs)))
       = (if Startup \<in> set evs then [True] else [])
   \<and> ready_stores (snd (fst (api_exec port evs)))
       = (if ready (fst (fst (api_exec port evs))) then [True] else [])
   \<and> ready_stores (snd (fst (worker_exec port evs)))
       = (if ready (fst (fst (worker_exec port evs))) then [True] else [])
   \<and> (ready (fst (fst (api_exec port evs))) \<longrightarrow>
        ready (fst (fst (api_exec port (evs @ evs'))))
        \<and> status_of (fst (api_healthz port w r (fst (api_exec port (evs @ evs')))))
            \<noteq> Some ''not_ready'')
   \<and> (ready (fst (fst (worker_exec port evs))) \<longrightarrow>
        ready (fst (fst (worker_exec port (evs @ evs'))))
        \<and> status_of (fst (worker_healthz port w r (fst (worker_exec port (evs @ evs')))))
            \<noteq> Some ''not_ready'')"
proof (intro conjI impI)
  show "ready (fst (fst (api_exec port evs))) = (Startup \<in> set evs)"
    by (rule api_ready_iff)
  show "ready (fst (fst (worker_exec port evs))) = (Startup \<in> set evs)"
    by (rule worker_ready_iff)
  show "ready_stores (snd (fst (api_exec port evs))) = (if Startup \<in> set evs then [True] else [])"
    using api_ready_invariant [of port evs] api_ready_iff [of port evs] by simp
  show "ready_stores (snd (fst (worker_exec port evs)))
       = (if Startup \<in> set evs then [True] else [])"
    using worker_ready_invariant [of port evs] worker_ready_iff [of port evs] by simp
  show "ready_stores (snd (fst (api_exec port evs)))
       = (if ready (fst (fst (api_exec port evs))) then [True] else [])"
    using api_ready_invariant [of port evs] by simp
  show "ready_stores (snd (fst (worker_exec port evs)))
       = (if ready (fst (fst (worker_exec port evs))) then [True] else [])"
    using worker_ready_invariant [of port evs] by simp
next
  assume "ready (fst (fst (api_exec port evs)))"
  then show a: "ready (fst (fst (api_exec port (evs @ evs'))))"
    by (rule api_ready_stays)
  then show "status_of (fst (api_healthz port w r (fst (api_exec port (evs @ evs')))))
            \<noteq> Some ''not_ready''"
    by (simp add: api_healthz_reading)
next
  assume "ready (fst (fst (worker_exec port evs)))"
  then show a: "ready (fst (fst (worker_exec port (evs @ evs'))))"
    by (rule worker_ready_stays)
  then show "status_of (fst (worker_healthz port w r (fst (worker_exec port (evs @ evs')))))
            \<noteq> Some ''not_ready''"
    by (simp add: worker_healthz_reading)
qed (simp_all add: startup_effects api_serve_ready worker_serve_ready)

theorem readiness_set_once_witness:
  "\<not> ready (fst (fst (api_exec ''3456'' [Request quiet_world (get ''/healthz'')])))
   \<and> ready (fst (fst (api_exec ''3456'' [Request quiet_world (get ''/healthz''), Startup])))
   \<and> ready_stores (snd (fst (api_exec ''3456''
        [Request quiet_world (get ''/healthz''), Startup]))) = [True]
   \<and> ready (fst (fst (api_exec ''3456''
        ([Request quiet_world (get ''/healthz''), Startup]
         @ [Request quiet_world (post ''/healthz/fail''), Startup,
            Request quiet_world (get ''/slow'')]))))
   \<and> status_of (fst (api_healthz ''3456'' quiet_world (get ''/healthz'') (fst (api_exec ''3456''
        ([Request quiet_world (get ''/healthz''), Startup]
         @ [Request quiet_world (post ''/healthz/fail''), Startup,
            Request quiet_world (get ''/slow'')])))))
       \<noteq> Some ''not_ready''
   \<and> \<not> ready (fst (fst (worker_exec ''9090'' [Request quiet_world (get ''/healthz'')])))
   \<and> ready (fst (fst (worker_exec ''9090'' [Startup])))
   \<and> ready_stores (snd (fst (worker_exec ''9090'' [Startup]))) = [True]
   \<and> ready (fst (fst (worker_exec ''9090''
        ([Startup] @ [Request quiet_world (post ''/healthz/fail''), Startup]))))
   \<and> status_of (fst (worker_healthz ''9090'' quiet_world (get ''/healthz'')
        (fst (worker_exec ''9090''
           ([Startup] @ [Request quiet_world (post ''/healthz/fail''), Startup])))))
       \<noteq> Some ''not_ready''"
proof -
  have a: "ready (fst (fst (api_exec ''3456'' [Request quiet_world (get ''/healthz''), Startup])))"
    by (simp add: api_exec_def init_def startup_effects api_serve_ready)
  have b: "ready (fst (fst (worker_exec ''9090'' [Startup])))"
    by (simp add: worker_exec_def init_def startup_effects)
  note x = readiness_set_once [of "(cold, [])" "''3456''" quiet_world "get ''/healthz''"
      "[Request quiet_world (get ''/healthz''), Startup]"
      "[Request quiet_world (post ''/healthz/fail''), Startup, Request quiet_world (get ''/slow'')]"]
  note y = readiness_set_once [of "(cold, [])" "''9090''" quiet_world "get ''/healthz''"
      "[Startup]" "[Request quiet_world (post ''/healthz/fail''), Startup]"]
  note z = readiness_set_once [of "(cold, [])" _ quiet_world "get ''/healthz''"
      "[Request quiet_world (get ''/healthz'')]" "[]"]
  have "\<not> ready (fst (fst (api_exec ''3456'' [Request quiet_world (get ''/healthz'')])))"
    and "\<not> ready (fst (fst (worker_exec ''9090'' [Request quiet_world (get ''/healthz'')])))"
    using z [of "''3456''"] z [of "''9090''"] by simp_all
  moreover
  have "ready_stores (snd (fst (api_exec ''3456''
        [Request quiet_world (get ''/healthz''), Startup]))) = [True]"
    and "ready (fst (fst (api_exec ''3456''
        ([Request quiet_world (get ''/healthz''), Startup]
         @ [Request quiet_world (post ''/healthz/fail''), Startup,
            Request quiet_world (get ''/slow'')]))))"
    and "status_of (fst (api_healthz ''3456'' quiet_world (get ''/healthz'') (fst (api_exec ''3456''
        ([Request quiet_world (get ''/healthz''), Startup]
         @ [Request quiet_world (post ''/healthz/fail''), Startup,
            Request quiet_world (get ''/slow'')])))))
       \<noteq> Some ''not_ready''"
    using x a by simp_all
  moreover
  have "ready_stores (snd (fst (worker_exec ''9090'' [Startup]))) = [True]"
    and "ready (fst (fst (worker_exec ''9090''
        ([Startup] @ [Request quiet_world (post ''/healthz/fail''), Startup]))))"
    and "status_of (fst (worker_healthz ''9090'' quiet_world (get ''/healthz'')
        (fst (worker_exec ''9090''
           ([Startup] @ [Request quiet_world (post ''/healthz/fail''), Startup])))))
       \<noteq> Some ''not_ready''"
    using y b by simp_all
  ultimately show ?thesis using a b by blast
qed

section \<open>The protected endpoint\<close>

lemma utf8_size_le:
  "utf8_size (b # bs) = Suc k \<Longrightarrow> k \<le> length bs"
  by (auto simp: utf8_size_def Let_def split: if_splits list.splits)

lemma valid_encoded:
  "utf8_ValidString s \<Longrightarrow> encoded_string s = s"
  by (induction s rule: encoded_string.induct) (auto split: nat.splits)

lemma ascii_encoded:
  "\<forall>b \<in> set a. (of_char b :: nat) < 0x80 \<Longrightarrow> encoded_string (a @ s) = a @ encoded_string s"
  by (induction a) (auto simp: utf8_size_def)

lemma api_protected_reading:
  assumes "Header_Get (req_header r) ''X-Unkey-Principal'' = p"
  shows "p = [] \<Longrightarrow> code (fst (api_protected port w r c)) = 401"
    and "p = [] \<Longrightarrow> status_of (emitted (fst (api_protected port w r c))) = Some ''unauthorized''"
    and "p \<noteq> [] \<Longrightarrow> json_Unmarshal_map p = Inl e \<Longrightarrow>
           fst (api_protected port w r c) =
             JSON (now w) 200 \<lparr>Service = ''api'', Status = ''ok'', Port = port, Timestamp = [],
                                Message = ''principal (raw): '' @ p\<rparr>"
    and "p \<noteq> [] \<Longrightarrow> json_Unmarshal_map p = Inr g \<Longrightarrow>
           fst (api_protected port w r c) =
             \<lparr>code = 200, content_type = ''application/json'',
              payload = Principal_doc ''api'' ''authenticated'' port g\<rparr>"
  using assms
  by (simp_all add: api_protected_def reading_defs emitted_def utf8_size_def Let_def)

text \<open>When the decoder accepts, and what it stores then.\<close>

lemma Unmarshal_accepts:
  "(json_Unmarshal_map d = Inr g) =
     (\<exists>v. json_parse d = Some v \<and> (v = JNull \<or> (\<exists>ms. v = JObject ms))
          \<and> list_all ParseFloat_ok (numbers_of v) \<and> g = decode_any v)"
proof (cases "json_parse d")
  case None
  then show ?thesis by (simp add: json_Unmarshal_map_def)
next
  case (Some v)
  have f: "(filter (\<lambda>lit. \<not> ParseFloat_ok lit) xs = []) = list_all ParseFloat_ok xs" for xs
    by (induction xs) auto
  show ?thesis
  proof (cases v)
    case (JObject ms)
    show ?thesis
    proof (cases "filter (\<lambda>lit. \<not> ParseFloat_ok lit) (numbers_of (JObject ms))")
      case Nil
      with Some JObject f [of "numbers_of (JObject ms)"] show ?thesis
        by (auto simp: json_Unmarshal_map_def)
    next
      case (Cons lit lits)
      with Some JObject f [of "numbers_of (JObject ms)"] show ?thesis
        by (auto simp: json_Unmarshal_map_def)
    qed
  qed (use Some in \<open>auto simp: json_Unmarshal_map_def\<close>)
qed

lemma Unmarshal_rejects:
  "(\<exists>e. json_Unmarshal_map d = Inl e) =
     (\<not> (\<exists>v. json_parse d = Some v \<and> (v = JNull \<or> (\<exists>ms. v = JObject ms))
            \<and> list_all ParseFloat_ok (numbers_of v)))"
proof -
  have "(\<exists>e. json_Unmarshal_map d = Inl e) = (\<not> (\<exists>g. json_Unmarshal_map d = Inr g))"
    by (cases "json_Unmarshal_map d") auto
  then show ?thesis
    by (simp add: Unmarshal_accepts)
qed

lemma Unmarshal_syntax:
  "\<not> json_Valid d \<Longrightarrow> json_Unmarshal_map d = Inl SyntaxError"
  by (simp add: json_Unmarshal_map_def json_Valid_def)

lemmas scan_defs = json_parse_def json_Valid_def begin_value_def begin_string_def num_0_def
  num_esign_def is_space_def is_digit_def is_hex_def

text \<open>
  C8, as the code has it. GET /protected on the api: without the header
  X-Unkey-Principal, or with an empty one, the answer is 401 with status unauthorized. With
  a header that \<^verbatim>\<open>json.Unmarshal\<close> cannot store in a map with string keys, the answer is 200
  with status ok, and its message is \<^verbatim>\<open>principal (raw): \<close> followed by the header as the
  encoder writes it: the header itself when it is valid UTF-8, and with U+FFFD for each
  byte that is not part of a well-formed sequence otherwise. The decoder cannot store the
  header exactly when the header is not valid JSON, or is valid JSON of another kind than
  an object or null (a number, a string, a boolean, an array), or is an object holding a
  number beyond the range of float64. With a header that it can store, that is null or an
  object whose numbers all convert, the answer is 200 with status authenticated, the port,
  and as principal the decoded value as the encoder writes it: nil for null, and for an
  object a map with the last value of a repeated key, strings unquoted, numbers as
  float64.
\<close>

theorem protected_principal:
  assumes "req_method r = ''GET''" and "req_path r = ''/protected''"
    and "Header_Get (req_header r) ''X-Unkey-Principal'' = p"
  shows "(p = [] \<longrightarrow>
            code (emitted (fst (api_serve port w r c))) = 401
            \<and> status_of (emitted (fst (api_serve port w r c))) = Some ''unauthorized'')
       \<and> (p \<noteq> [] \<and> (\<exists>e. json_Unmarshal_map p = Inl e) \<longrightarrow>
            code (emitted (fst (api_serve port w r c))) = 200
            \<and> status_of (emitted (fst (api_serve port w r c))) = Some ''ok''
            \<and> message_of (emitted (fst (api_serve port w r c)))
                = Some (''principal (raw): '' @ encoded_string p)
            \<and> (utf8_ValidString p \<longrightarrow>
                 message_of (emitted (fst (api_serve port w r c)))
                   = Some (''principal (raw): '' @ p)))
       \<and> (\<forall>g. p \<noteq> [] \<and> json_Unmarshal_map p = Inr g \<longrightarrow>
            code (emitted (fst (api_serve port w r c))) = 200
            \<and> payload (emitted (fst (api_serve port w r c)))
                = Principal_doc ''api'' ''authenticated'' (encoded_string port) (encoded_any g))
       \<and> (\<exists>e. json_Unmarshal_map p = Inl e) =
           (\<not> (\<exists>v. json_parse p = Some v \<and> (v = JNull \<or> (\<exists>ms. v = JObject ms))
                  \<and> list_all ParseFloat_ok (numbers_of v)))
       \<and> (\<forall>g. (json_Unmarshal_map p = Inr g) =
             (\<exists>v. json_parse p = Some v \<and> (v = JNull \<or> (\<exists>ms. v = JObject ms))
                  \<and> list_all ParseFloat_ok (numbers_of v) \<and> g = decode_any v))
       \<and> (\<not> json_Valid p \<longrightarrow> json_Unmarshal_map p = Inl SyntaxError)"
proof -
  have s: "api_serve port w r c = api_protected port w r c"
    using assms(1,2) by (simp add: serve_defs serve_def route_protected)
  note rd = api_protected_reading [OF assms(3), where port = port and w = w and c = c]
  have "p = [] \<longrightarrow>
          code (emitted (fst (api_serve port w r c))) = 401
          \<and> status_of (emitted (fst (api_serve port w r c))) = Some ''unauthorized''"
    using rd(1,2) s by (simp add: emitted_def)
  moreover
  have "p \<noteq> [] \<and> (\<exists>e. json_Unmarshal_map p = Inl e) \<longrightarrow>
          code (emitted (fst (api_serve port w r c))) = 200
          \<and> status_of (emitted (fst (api_serve port w r c))) = Some ''ok''
          \<and> message_of (emitted (fst (api_serve port w r c)))
              = Some (''principal (raw): '' @ encoded_string p)
          \<and> (utf8_ValidString p \<longrightarrow>
               message_of (emitted (fst (api_serve port w r c)))
                 = Some (''principal (raw): '' @ p))"
    using rd(3) s valid_encoded [of p]
    by (auto simp: reading_defs emitted_def utf8_size_def)
  moreover
  have "\<forall>g. p \<noteq> [] \<and> json_Unmarshal_map p = Inr g \<longrightarrow>
          code (emitted (fst (api_serve port w r c))) = 200
          \<and> payload (emitted (fst (api_serve port w r c)))
              = Principal_doc ''api'' ''authenticated'' (encoded_string port) (encoded_any g)"
    using rd(4) s by (simp add: emitted_def utf8_size_def)
  moreover
  note Unmarshal_rejects [of p]
  moreover
  have "\<forall>g. (json_Unmarshal_map p = Inr g) =
             (\<exists>v. json_parse p = Some v \<and> (v = JNull \<or> (\<exists>ms. v = JObject ms))
                  \<and> list_all ParseFloat_ok (numbers_of v) \<and> g = decode_any v)"
    using Unmarshal_accepts [of p] by blast
  moreover
  have "\<not> json_Valid p \<longrightarrow> json_Unmarshal_map p = Inl SyntaxError"
    by (simp add: Unmarshal_syntax)
  ultimately show ?thesis by blast
qed

text \<open>Some headers: an object with one member, an object with a repeated key, an escape
  and numbers, an object with a number beyond float64, and text that is not JSON.\<close>

lemma parse_sub_u1:
  "json_parse (''{'' @ [CHR 0x22] @ ''sub'' @ [CHR 0x22] @ '':'' @ [CHR 0x22] @ ''u1''
      @ [CHR 0x22] @ ''}'') = Some (JObject [(''sub'', JString ''u1'')])"
  by (simp add: scan_defs)

lemma parse_big_number:
  "json_parse (''{'' @ [CHR 0x22] @ ''n'' @ [CHR 0x22] @ '':1e999}'')
     = Some (JObject [(''n'', JNumber ''1e999'')])"
  by (simp add: scan_defs)

lemma big_number_rejected:
  "\<not> ParseFloat_ok ''1e999''"
  by (simp add: ParseFloat_ok_def exp_val_def digits_val_def digit_val_def float64_limit_def)

lemma Unmarshal_repeated_key:
  "json_Unmarshal_map (''{'' @ [CHR 0x22] @ ''b'' @ [CHR 0x22] @ '':1,'' @ [CHR 0x22] @ ''a''
      @ [CHR 0x22] @ '':true,'' @ [CHR 0x22, CHR 0x5C] @ ''u0062'' @ [CHR 0x22] @ '':0.25}'')
   = Inr (Go_map [(''a'', Go_bool True), (''b'', Go_float64 False 4503599627370496 (- 54))])"
  by code_simp

theorem protected_principal_witness:
  "req_method (with_principal ''{sub'') = ''GET''
   \<and> req_path (with_principal ''{sub'') = ''/protected''
   \<and> Header_Get (req_header (with_principal ''{sub'')) ''X-Unkey-Principal'' = ''{sub''
   \<and> code (emitted (fst (api_serve ''3456'' quiet_world (get ''/protected'') (warm, [])))) = 401
   \<and> \<not> json_Valid ''{sub''
   \<and> message_of (emitted (fst (api_serve ''3456'' quiet_world (with_principal ''{sub'')
        (warm, [])))) = Some ''principal (raw): {sub''
   \<and> message_of (emitted (fst (api_serve ''3456'' quiet_world (with_principal [CHR 0xFF])
        (warm, [])))) = Some (''principal (raw): '' @ [CHR 0xEF, CHR 0xBF, CHR 0xBD])
   \<and> json_Valid (''{'' @ [CHR 0x22] @ ''n'' @ [CHR 0x22] @ '':1e999}'')
   \<and> status_of (emitted (fst (api_serve ''3456'' quiet_world
        (with_principal (''{'' @ [CHR 0x22] @ ''n'' @ [CHR 0x22] @ '':1e999}'')) (warm, []))))
       = Some ''ok''
   \<and> payload (emitted (fst (api_serve ''3456'' quiet_world
        (with_principal (''{'' @ [CHR 0x22] @ ''sub'' @ [CHR 0x22] @ '':'' @ [CHR 0x22] @ ''u1''
           @ [CHR 0x22] @ ''}'')) (warm, []))))
       = Principal_doc ''api'' ''authenticated'' ''3456'' (Go_map [(''sub'', Go_string ''u1'')])
   \<and> payload (emitted (fst (api_serve ''3456'' quiet_world
        (with_principal (''{'' @ [CHR 0x22] @ ''b'' @ [CHR 0x22] @ '':1,'' @ [CHR 0x22] @ ''a''
           @ [CHR 0x22] @ '':true,'' @ [CHR 0x22, CHR 0x5C] @ ''u0062'' @ [CHR 0x22] @ '':0.25}''))
        (warm, []))))
       = Principal_doc ''api'' ''authenticated'' ''3456''
           (Go_map [(''a'', Go_bool True), (''b'', Go_float64 False 4503599627370496 (- 54))])"
proof -
  let ?doc = "''{'' @ [CHR 0x22] @ ''sub'' @ [CHR 0x22] @ '':'' @ [CHR 0x22] @ ''u1''
      @ [CHR 0x22] @ ''}''"
  let ?big = "''{'' @ [CHR 0x22] @ ''n'' @ [CHR 0x22] @ '':1e999}''"
  let ?rep = "''{'' @ [CHR 0x22] @ ''b'' @ [CHR 0x22] @ '':1,'' @ [CHR 0x22] @ ''a''
      @ [CHR 0x22] @ '':true,'' @ [CHR 0x22, CHR 0x5C] @ ''u0062'' @ [CHR 0x22] @ '':0.25}''"
  have m: "req_method (with_principal x) = ''GET''" "req_path (with_principal x) = ''/protected''"
    "Header_Get (req_header (with_principal x)) ''X-Unkey-Principal'' = x" for x
    by (simp_all add: with_principal_def Header_Get_def)
  have g: "req_method (get ''/protected'') = ''GET''" "req_path (get ''/protected'') = ''/protected''"
    "Header_Get (req_header (get ''/protected'')) ''X-Unkey-Principal'' = []"
    by (simp_all add: get_def Header_Get_def)
  have u: "json_Unmarshal_map ?doc = Inr (Go_map [(''sub'', Go_string ''u1'')])"
    using parse_sub_u1 by (simp add: json_Unmarshal_map_def make_map_def)
  have n: "\<not> json_Valid ''{sub''" "\<not> json_Valid [CHR 0xFF]"
    by (simp_all add: scan_defs)
  have b: "json_Valid ?big" "json_Unmarshal_map ?big = Inl (UnmarshalTypeError ''number 1e999'')"
    using parse_big_number big_number_rejected
    by (simp_all add: json_Valid_def json_Unmarshal_map_def)
  have e: "encoded_string ''{sub'' = ''{sub''" "encoded_string [CHR 0xFF] = [CHR 0xEF, CHR 0xBF, CHR 0xBD]"
    "encoded_string ''3456'' = ''3456''"
    "encoded_any (Go_map [(''sub'', Go_string ''u1'')]) = Go_map [(''sub'', Go_string ''u1'')]"
    "encoded_any (Go_map [(''a'', Go_bool True), (''b'', Go_float64 False 4503599627370496 (- 54))])
       = Go_map [(''a'', Go_bool True), (''b'', Go_float64 False 4503599627370496 (- 54))]"
    by (simp_all add: utf8_size_def replacement_def)
  have "code (emitted (fst (api_serve ''3456'' quiet_world (get ''/protected'') (warm, [])))) = 401"
    using protected_principal [OF g, of "''3456''" quiet_world "(warm, [])"] by simp
  moreover
  have "message_of (emitted (fst (api_serve ''3456'' quiet_world (with_principal ''{sub'')
          (warm, [])))) = Some ''principal (raw): {sub''"
    using protected_principal [OF m, of "''{sub''" "''3456''" quiet_world "(warm, [])"] n e
    by simp
  moreover
  have "message_of (emitted (fst (api_serve ''3456'' quiet_world (with_principal [CHR 0xFF])
          (warm, [])))) = Some (''principal (raw): '' @ [CHR 0xEF, CHR 0xBF, CHR 0xBD])"
    using protected_principal [OF m, of "[CHR 0xFF]" "''3456''" quiet_world "(warm, [])"] n e
    by simp
  moreover
  have "status_of (emitted (fst (api_serve ''3456'' quiet_world (with_principal ?big)
          (warm, [])))) = Some ''ok''"
    using protected_principal [OF m, of ?big "''3456''" quiet_world "(warm, [])"] b by simp
  moreover
  have "payload (emitted (fst (api_serve ''3456'' quiet_world (with_principal ?doc) (warm, []))))
       = Principal_doc ''api'' ''authenticated'' ''3456'' (Go_map [(''sub'', Go_string ''u1'')])"
    using protected_principal [OF m, of ?doc "''3456''" quiet_world "(warm, [])"] u e by simp
  moreover
  have "payload (emitted (fst (api_serve ''3456'' quiet_world (with_principal ?rep) (warm, []))))
       = Principal_doc ''api'' ''authenticated'' ''3456''
           (Go_map [(''a'', Go_bool True), (''b'', Go_float64 False 4503599627370496 (- 54))])"
    using protected_principal [OF m, of ?rep "''3456''" quiet_world "(warm, [])"]
      Unmarshal_repeated_key e
    by simp
  ultimately show ?thesis using m n b by simp
qed

text \<open>
  C8 as stated fails: the headers \<^verbatim>\<open>7\<close> and \<^verbatim>\<open>[1]\<close> are valid JSON, and the answer to them
  is not the authenticated one but 200 with status ok and the raw header.
\<close>

theorem protected_valid_json_raw:
  "json_Valid ''7''
   \<and> code (emitted (fst (api_serve ''3456'' quiet_world (with_principal ''7'') (warm, [])))) = 200
   \<and> status_of (emitted (fst (api_serve ''3456'' quiet_world (with_principal ''7'') (warm, []))))
       = Some ''ok''
   \<and> message_of (emitted (fst (api_serve ''3456'' quiet_world (with_principal ''7'') (warm, []))))
       = Some ''principal (raw): 7''
   \<and> json_Valid ''[1]''
   \<and> status_of (emitted (fst (api_serve ''3456'' quiet_world (with_principal ''[1]'') (warm, []))))
       = Some ''ok''
   \<and> message_of (emitted (fst (api_serve ''3456'' quiet_world (with_principal ''[1]'') (warm, []))))
       = Some ''principal (raw): [1]''"
proof -
  have p: "json_parse ''7'' = Some (JNumber ''7'')"
    "json_parse ''[1]'' = Some (JArray [JNumber ''1''])"
    by (simp_all add: scan_defs)
  then have u: "json_Unmarshal_map ''7'' = Inl (UnmarshalTypeError ''number'')"
    "json_Unmarshal_map ''[1]'' = Inl (UnmarshalTypeError ''array'')"
    by (simp_all add: json_Unmarshal_map_def)
  have s: "api_serve ''3456'' quiet_world (with_principal x) (warm, [])
             = api_protected ''3456'' quiet_world (with_principal x) (warm, [])" for x
    by (simp add: serve_defs serve_def with_principal_def route_protected)
  show ?thesis
    unfolding s using p u
    by (simp add: json_Valid_def api_protected_def Header_Get_def with_principal_def
        reading_defs emitted_def utf8_size_def Let_def)
qed

section \<open>The port\<close>

lemma api_handler_port:
  "h \<noteq> Env \<Longrightarrow> port_field (fst (api_handler h port w r c)) = Some port"
  by (cases h)
    (simp_all add: api_handler_defs reading_defs Let_def split: sum.split get_result.split)

lemma worker_handler_port:
  "port_field (fst (worker_handler h port w r c)) = Some port"
  by (cases h)
    (simp_all add: worker_handler_defs reading_defs Let_def split: sum.split get_result.split)

text \<open>
  C9, as the code has it. With \<^verbatim>\<open>PORT\<close> empty or unset the api takes port 3456 and the
  worker port 9090; otherwise both take the value of \<^verbatim>\<open>PORT\<close>. Every response that a
  handler builds with the shared envelope, and the authenticated document of
  GET /protected, carries that port in its port member; this covers every handler of
  the worker and every handler of the api but GET /env. The document of GET /env lists
  the environment: its port member, if it has one, is the value of a variable named
  \<^verbatim>\<open>port\<close>. The multiplexer's own answers are plain text.
\<close>

theorem port_reported:
  "(os_Getenv env ''PORT'' = [] \<longrightarrow> api_port env = ''3456'' \<and> worker_port env = ''9090'')
   \<and> (os_Getenv env ''PORT'' \<noteq> [] \<longrightarrow>
        api_port env = os_Getenv env ''PORT'' \<and> worker_port env = os_Getenv env ''PORT'')
   \<and> (\<forall>h. route api_routes (req_method r) (req_path r) = Handler h \<and> h \<noteq> Env \<longrightarrow>
        port_field (fst (api_serve (api_port env) w r c)) = Some (api_port env))
   \<and> (\<forall>h. route worker_routes (req_method r) (req_path r) = Handler h \<longrightarrow>
        port_field (fst (worker_serve (worker_port env) w r c)) = Some (worker_port env))
   \<and> (route api_routes (req_method r) (req_path r) = Handler Env \<longrightarrow>
        port_field (fst (api_serve (api_port env) w r c))
          = map_of (sort_key fst (env_vars (environ w))) ''port'')
   \<and> ((\<forall>h. route api_routes (req_method r) (req_path r) \<noteq> Handler h) \<longrightarrow>
        port_field (fst (api_serve (api_port env) w r c)) = None)
   \<and> ((\<forall>h. route worker_routes (req_method r) (req_path r) \<noteq> Handler h) \<longrightarrow>
        port_field (fst (worker_serve (worker_port env) w r c)) = None)"
proof (intro conjI allI impI)
  assume "os_Getenv env ''PORT'' = []"
  then show "api_port env = ''3456''" and "worker_port env = ''9090''"
    by (simp_all add: api_port_def worker_port_def)
next
  assume "os_Getenv env ''PORT'' \<noteq> []"
  then show "api_port env = os_Getenv env ''PORT''" and "worker_port env = os_Getenv env ''PORT''"
    by (simp_all add: api_port_def worker_port_def)
next
  fix h
  assume "route api_routes (req_method r) (req_path r) = Handler h \<and> h \<noteq> Env"
  then show "port_field (fst (api_serve (api_port env) w r c)) = Some (api_port env)"
    by (simp add: api_serve_def serve_Handler api_handler_port)
next
  fix h
  assume "route worker_routes (req_method r) (req_path r) = Handler h"
  then show "port_field (fst (worker_serve (worker_port env) w r c)) = Some (worker_port env)"
    by (simp add: worker_serve_def serve_Handler worker_handler_port)
next
  assume "route api_routes (req_method r) (req_path r) = Handler Env"
  then show "port_field (fst (api_serve (api_port env) w r c))
          = map_of (sort_key fst (env_vars (environ w))) ''port''"
    by (simp add: api_serve_def serve_Handler api_env_def port_field_def)
next
  assume "\<forall>h. route api_routes (req_method r) (req_path r) \<noteq> Handler h"
  then show "port_field (fst (api_serve (api_port env) w r c)) = None"
    by (cases "route api_routes (req_method r) (req_path r)")
      (simp_all add: api_serve_def serve_def mux_error_def port_field_def)
next
  assume "\<forall>h. route worker_routes (req_method r) (req_path r) \<noteq> Handler h"
  then show "port_field (fst (worker_serve (worker_port env) w r c)) = None"
    by (cases "route worker_routes (req_method r) (req_path r)")
      (simp_all add: worker_serve_def serve_def mux_error_def port_field_def)
qed

theorem port_reported_witness:
  "os_Getenv [''HOME=/root''] ''PORT'' = []
   \<and> api_port [''HOME=/root''] = ''3456'' \<and> worker_port [''HOME=/root''] = ''9090''
   \<and> os_Getenv [''PORT=8080''] ''PORT'' \<noteq> []
   \<and> api_port [''PORT=8080''] = os_Getenv [''PORT=8080''] ''PORT''
   \<and> route api_routes (req_method (get ''/slow'')) (req_path (get ''/slow'')) = Handler Slow
   \<and> Slow \<noteq> Env
   \<and> port_field (fst (api_serve (api_port [''PORT=8080'']) quiet_world (get ''/slow'') (warm, [])))
       = Some (api_port [''PORT=8080''])
   \<and> route worker_routes (req_method (get ''/'')) (req_path (get ''/'')) = Handler W_root
   \<and> port_field (fst (worker_serve (worker_port [''HOME=/root'']) quiet_world (get ''/'')
        (warm, []))) = Some (worker_port [''HOME=/root''])"
proof -
  have e: "os_Getenv [''HOME=/root''] ''PORT'' = []"
    by (simp add: strings_Cut_def)
  have f: "os_Getenv [''PORT=8080''] ''PORT'' \<noteq> []"
    by (simp add: strings_Cut_def)
  have a: "route api_routes (req_method (get ''/slow'')) (req_path (get ''/slow'')) = Handler Slow"
    by (simp add: get_def route_defs table_defs)
  have b: "route worker_routes (req_method (get ''/'')) (req_path (get ''/'')) = Handler W_root"
    by (simp add: get_def route_defs table_defs)
  have n: "Slow \<noteq> Env"
    by simp
  from port_reported [of "[''HOME=/root'']" "get ''/''" quiet_world "(warm, [])"]
    port_reported [of "[''PORT=8080'']" "get ''/slow''" quiet_world "(warm, [])"]
    e f a b n
  show ?thesis by blast
qed

text \<open>
  C9 as stated fails on GET /env of the api: started with an environment that holds
  \<^verbatim>\<open>port=1\<close> and no \<^verbatim>\<open>PORT\<close>, the api takes port 3456, and the JSON document of its
  GET /env response has the port member 1.
\<close>

theorem env_dump_port_member:
  "os_Getenv [''port=1''] ''PORT'' = []
   \<and> api_port [''port=1''] = ''3456''
   \<and> code (fst (api_serve (api_port [''port=1'']) (quiet_world\<lparr>environ := [''port=1'']\<rparr>)
        (get ''/env'') (warm, []))) = 200
   \<and> payload (fst (api_serve (api_port [''port=1'']) (quiet_world\<lparr>environ := [''port=1'']\<rparr>)
        (get ''/env'') (warm, []))) = Env_doc [(''port'', ''1'')]
   \<and> port_field (fst (api_serve (api_port [''port=1'']) (quiet_world\<lparr>environ := [''port=1'']\<rparr>)
        (get ''/env'') (warm, []))) = Some ''1''"
proof -
  have s: "api_serve p w (get ''/env'') c = api_env p w (get ''/env'') c" for p w c
    by (simp add: serve_defs serve_def get_def route_env)
  have v: "env_vars [''port=1''] = [(''port'', ''1'')]"
    by (simp add: env_vars_def strings_Cut_def)
  show ?thesis
    unfolding s
    by (simp add: api_env_def v port_field_def api_port_def strings_Cut_def)
qed

end
